theory Spec2Isabelle
  imports Main "HOL-Library.Word"
begin

section \<open>Double-reset detector: data model\<close>

text \<open>
  The development embeds \<^verbatim>\<open>src/drd_handler.cpp\<close> and the class declared in
  \<^verbatim>\<open>src/include/drd_handler.hpp\<close>. The detector object, the RTC cell and the
  platform services it talks to (NVS driver, one-shot timers, reset reason, application
  descriptor) are one state record that every operation takes and returns. Log calls
  (\<^verbatim>\<open>ESP_LOGI\<close>, \<^verbatim>\<open>ESP_LOGW\<close>) have no effect on that state and are left out.
\<close>

subsection \<open>Enumerations and constants\<close>

datatype Backend = RTC | NVS

text \<open>
  The code tells apart \<^verbatim>\<open>ESP_OK\<close>, \<^verbatim>\<open>ESP_ERR_NVS_NOT_FOUND\<close> and every
  other code. \<open>ESP_FAIL\<close> is the code a failing driver call returns in this model.
\<close>

datatype esp_err =
    ESP_OK
  | ESP_FAIL
  | ESP_ERR_NVS_NOT_FOUND
  | ESP_ERR_NVS_TYPE_MISMATCH
  | ESP_ERR_NVS_INVALID_LENGTH

datatype esp_reset_reason =
    ESP_RST_UNKNOWN
  | ESP_RST_POWERON
  | ESP_RST_EXT
  | ESP_RST_SW
  | ESP_RST_PANIC
  | ESP_RST_INT_WDT
  | ESP_RST_TASK_WDT
  | ESP_RST_WDT
  | ESP_RST_DEEPSLEEP
  | ESP_RST_BROWNOUT
  | ESP_RST_SDIO
  | ESP_RST_USB
  | ESP_RST_JTAG

definition kDrdMagic :: "32 word" where
  "kDrdMagic = 0xD0B1E5E5"

definition kKeyMagic :: string where
  "kKeyMagic = ''magic''"

definition kKeyBoot :: string where
  "kKeyBoot = ''last_boot_us''"

definition kKeyAppHash :: string where
  "kKeyAppHash = ''app_hash''"

definition kKeyAppSha256 :: string where
  "kKeyAppSha256 = ''app_sha256''"

definition kKeyDirty :: string where
  "kKeyDirty = ''fw_dirty''"

definition kKeyFirstBoot :: string where
  "kKeyFirstBoot = ''first_boot''"

definition kSha256Len :: nat where
  "kSha256Len = 32"

text \<open>
  The Kconfig options the source reads through \<^verbatim>\<open>sdkconfig.h\<close>, which is not part
  of the sources: they are a parameter of every operation that uses one.
\<close>

record drd_config =
  CONFIG_DRD_SUPPRESS_TOOLING_RESETS :: bool
  CONFIG_DRD_ARM_DELAY_SECONDS :: "32 word"
  CONFIG_DRD_WINDOW_SECONDS :: "32 word"

subsection \<open>The persistent namespace and the trace of platform calls\<close>

text \<open>
  A value stored under a key of the namespace carries its type, as the typed
  \<^verbatim>\<open>nvs_get_*\<close>/\<^verbatim>\<open>nvs_set_*\<close> calls of the driver do.
\<close>

datatype nvs_value =
    U8 "8 word"
  | U32 "32 word"
  | U64 "64 word"
  | Blob "8 word list"

text \<open>
  Every call into the NVS driver and the timer service is recorded, in order, with the
  status it returned. A call to the detector that appends nothing performed no
  persistent read or write and touched no timer.
\<close>

datatype drd_event =
    NvsFlashInit esp_err
  | NvsOpen esp_err
  | NvsGet string esp_err
  | NvsSet string nvs_value esp_err
  | NvsErase string esp_err
  | NvsCommit esp_err
  | TimerCreate string esp_err
  | TimerStartOnce string "64 word" esp_err
  | TimerStop string
  | TimerDelete string

subsection \<open>State\<close>

text \<open>
  The first ten fields are the private members of \<^verbatim>\<open>DoubleResetDetector\<close>, without
  their trailing underscore. \<open>nvs_handle\<close> is left out: the handle is opaque, and the
  model has the one namespace the detector opens. A timer handle is \<open>None\<close> for
  \<^verbatim>\<open>nullptr\<close> and \<open>Some t\<close> for a timer that was created and started with a
  timeout of \<open>t\<close> microseconds.

  \<open>s_rtc_magic\<close> is the RTC slow-memory cell. \<open>nvs_view\<close> is the namespace as the
  open handle reads and writes it, \<open>nvs_durable\<close> what a commit has made durable.
  \<open>reset_reason\<close> is what \<^verbatim>\<open>esp_reset_reason()\<close> returns in this boot and
  \<open>app_elf_sha256\<close> the fingerprint of \<^verbatim>\<open>esp_app_get_description()\<close>, \<open>None\<close>
  when that returns null.

  \<open>faults\<close> scripts the platform: each driver call that can fail takes the next
  entry, and fails with \<open>ESP_FAIL\<close> and no effect when the entry is \<open>True\<close>; an empty
  script means no further failure.
\<close>

record drd_state =
  backend :: Backend
  configured :: bool
  nvs_ready :: bool
  evaluated :: bool
  cached_result :: bool
  disarm_timer :: "64 word option"
  arm_timer :: "64 word option"
  arm_window_s :: "32 word"
  firmware_id_dirty :: bool
  s_rtc_magic :: "32 word"
  nvs_view :: "string \<rightharpoonup> nvs_value"
  nvs_durable :: "string \<rightharpoonup> nvs_value"
  reset_reason :: esp_reset_reason
  app_elf_sha256 :: "8 word list option"
  faults :: "bool list"
  trace :: "drd_event list"

section \<open>Platform services\<close>

text \<open>
  The ESP-IDF functions the detector calls belong to the platform, not to the
  repository. They are modelled from their contract as the code relies on it and as
  section 4.2 of the specification words it: a read of a missing key reports
  \<^verbatim>\<open>ESP_ERR_NVS_NOT_FOUND\<close> and leaves the output variable as it was, an erase of
  a missing key reports the same, a read with the wrong type is an error, and writes
  are not durable until a commit succeeds. A call that fails changes nothing.
\<close>

definition next_fault :: "drd_state \<Rightarrow> bool \<times> drd_state" where
  "next_fault s =
     (case faults s of
        [] \<Rightarrow> (False, s)
      | f # fs \<Rightarrow> (f, s\<lparr>faults := fs\<rparr>))"

definition emit :: "drd_event \<Rightarrow> drd_state \<Rightarrow> drd_state" where
  "emit ev s = s\<lparr>trace := trace s @ [ev]\<rparr>"

definition nvs_flash_init :: "drd_state \<Rightarrow> esp_err \<times> drd_state" where
  "nvs_flash_init s =
     (let (f, s1) = next_fault s;
          err = (if f then ESP_FAIL else ESP_OK)
      in (err, emit (NvsFlashInit err) s1))"

definition nvs_open :: "drd_state \<Rightarrow> esp_err \<times> drd_state" where
  "nvs_open s =
     (let (f, s1) = next_fault s;
          err = (if f then ESP_FAIL else ESP_OK)
      in (err, emit (NvsOpen err) s1))"

definition nvs_get_u8 :: "string \<Rightarrow> 8 word \<Rightarrow> drd_state \<Rightarrow> esp_err \<times> 8 word \<times> drd_state" where
  "nvs_get_u8 key out s =
     (let (f, s1) = next_fault s;
          (err, v) =
            (if f then (ESP_FAIL, out)
             else case nvs_view s1 key of
                    None \<Rightarrow> (ESP_ERR_NVS_NOT_FOUND, out)
                  | Some (U8 x) \<Rightarrow> (ESP_OK, x)
                  | Some _ \<Rightarrow> (ESP_ERR_NVS_TYPE_MISMATCH, out))
      in (err, v, emit (NvsGet key err) s1))"

definition nvs_get_u32 :: "string \<Rightarrow> 32 word \<Rightarrow> drd_state \<Rightarrow> esp_err \<times> 32 word \<times> drd_state" where
  "nvs_get_u32 key out s =
     (let (f, s1) = next_fault s;
          (err, v) =
            (if f then (ESP_FAIL, out)
             else case nvs_view s1 key of
                    None \<Rightarrow> (ESP_ERR_NVS_NOT_FOUND, out)
                  | Some (U32 x) \<Rightarrow> (ESP_OK, x)
                  | Some _ \<Rightarrow> (ESP_ERR_NVS_TYPE_MISMATCH, out))
      in (err, v, emit (NvsGet key err) s1))"

text \<open>
  \<^verbatim>\<open>nvs_get_blob\<close> fills the caller's buffer \<open>out\<close>: a blob longer than the
  buffer is refused, a shorter one is copied over the front of the buffer, and the
  length of the blob is reported.
\<close>

definition nvs_get_blob ::
  "string \<Rightarrow> 8 word list \<Rightarrow> drd_state \<Rightarrow> esp_err \<times> 8 word list \<times> nat \<times> drd_state" where
  "nvs_get_blob key out s =
     (let (f, s1) = next_fault s;
          (err, buf, len) =
            (if f then (ESP_FAIL, out, length out)
             else case nvs_view s1 key of
                    None \<Rightarrow> (ESP_ERR_NVS_NOT_FOUND, out, length out)
                  | Some (Blob b) \<Rightarrow>
                      if length b > length out then (ESP_ERR_NVS_INVALID_LENGTH, out, length b)
                      else (ESP_OK, b @ drop (length b) out, length b)
                  | Some _ \<Rightarrow> (ESP_ERR_NVS_TYPE_MISMATCH, out, length out))
      in (err, buf, len, emit (NvsGet key err) s1))"

definition nvs_set :: "string \<Rightarrow> nvs_value \<Rightarrow> drd_state \<Rightarrow> esp_err \<times> drd_state" where
  "nvs_set key v s =
     (let (f, s1) = next_fault s
      in if f then (ESP_FAIL, emit (NvsSet key v ESP_FAIL) s1)
         else (ESP_OK, emit (NvsSet key v ESP_OK) (s1\<lparr>nvs_view := (nvs_view s1)(key \<mapsto> v)\<rparr>)))"

definition nvs_set_u8 :: "string \<Rightarrow> 8 word \<Rightarrow> drd_state \<Rightarrow> esp_err \<times> drd_state" where
  "nvs_set_u8 key v = nvs_set key (U8 v)"

definition nvs_set_u32 :: "string \<Rightarrow> 32 word \<Rightarrow> drd_state \<Rightarrow> esp_err \<times> drd_state" where
  "nvs_set_u32 key v = nvs_set key (U32 v)"

definition nvs_set_blob :: "string \<Rightarrow> 8 word list \<Rightarrow> drd_state \<Rightarrow> esp_err \<times> drd_state" where
  "nvs_set_blob key v = nvs_set key (Blob v)"

definition nvs_erase_key :: "string \<Rightarrow> drd_state \<Rightarrow> esp_err \<times> drd_state" where
  "nvs_erase_key key s =
     (let (f, s1) = next_fault s
      in if f then (ESP_FAIL, emit (NvsErase key ESP_FAIL) s1)
         else if nvs_view s1 key = None
              then (ESP_ERR_NVS_NOT_FOUND, emit (NvsErase key ESP_ERR_NVS_NOT_FOUND) s1)
         else (ESP_OK, emit (NvsErase key ESP_OK) (s1\<lparr>nvs_view := (nvs_view s1)(key := None)\<rparr>)))"

definition nvs_commit :: "drd_state \<Rightarrow> esp_err \<times> drd_state" where
  "nvs_commit s =
     (let (f, s1) = next_fault s
      in if f then (ESP_FAIL, emit (NvsCommit ESP_FAIL) s1)
         else (ESP_OK, emit (NvsCommit ESP_OK) (s1\<lparr>nvs_durable := nvs_view s1\<rparr>)))"

definition esp_timer_create :: "string \<Rightarrow> drd_state \<Rightarrow> esp_err \<times> drd_state" where
  "esp_timer_create name s =
     (let (f, s1) = next_fault s;
          err = (if f then ESP_FAIL else ESP_OK)
      in (err, emit (TimerCreate name err) s1))"

definition esp_timer_start_once :: "string \<Rightarrow> 64 word \<Rightarrow> drd_state \<Rightarrow> esp_err \<times> drd_state" where
  "esp_timer_start_once name timeout_us s =
     (let (f, s1) = next_fault s;
          err = (if f then ESP_FAIL else ESP_OK)
      in (err, emit (TimerStartOnce name timeout_us err) s1))"

section \<open>The detector\<close>

subsection \<open>Helpers of the anonymous namespace\<close>

definition is_tooling_reset :: "drd_config \<Rightarrow> esp_reset_reason \<Rightarrow> bool" where
  "is_tooling_reset cfg reason =
     (if CONFIG_DRD_SUPPRESS_TOOLING_RESETS cfg
      then reason = ESP_RST_SW \<or> reason = ESP_RST_USB \<or> reason = ESP_RST_JTAG
      else False)"

text \<open>
  \<^verbatim>\<open>get_current_app_sha256\<close> copies the 32 bytes of the descriptor's
  \<^verbatim>\<open>app_elf_sha256\<close> array into \<open>out\<close>, or leaves \<open>out\<close> alone when there is no
  descriptor.
\<close>

definition get_current_app_sha256 :: "8 word list option \<Rightarrow> 8 word list \<Rightarrow> bool \<times> 8 word list" where
  "get_current_app_sha256 app out =
     (case app of
        None \<Rightarrow> (False, out)
      | Some sha \<Rightarrow> (True, take kSha256Len sha))"

definition safe_nvs_init :: "drd_state \<Rightarrow> esp_err \<times> drd_state" where
  "safe_nvs_init s = nvs_flash_init s"

subsection \<open>Timers and their callbacks\<close>

text \<open>
  \<^verbatim>\<open>esp_timer_stop\<close> and \<^verbatim>\<open>esp_timer_delete\<close> are traced but take no entry of
  the fault script: the code logs their failure and drops the handle either way. The
  callbacks are always registered with \<^verbatim>\<open>this\<close> as their argument, so their null
  check has no branch here.
\<close>

definition cancel_disarm :: "drd_state \<Rightarrow> drd_state" where
  "cancel_disarm s =
     (if disarm_timer s = None then s
      else (emit (TimerDelete ''drd_disarm'') (emit (TimerStop ''drd_disarm'') s))
             \<lparr>disarm_timer := None\<rparr>)"

definition schedule_disarm :: "32 word \<Rightarrow> drd_state \<Rightarrow> drd_state" where
  "schedule_disarm window_s s =
     (let s1 = cancel_disarm s;
          (err, s2) = esp_timer_create ''drd_disarm'' s1
      in if err \<noteq> ESP_OK then s2\<lparr>disarm_timer := None\<rparr>
         else
           let timeout_us = (ucast window_s :: 64 word) * 1000000;
               (err2, s3) = esp_timer_start_once ''drd_disarm'' timeout_us s2
           in if err2 \<noteq> ESP_OK
              then (emit (TimerDelete ''drd_disarm'') s3)\<lparr>disarm_timer := None\<rparr>
              else s3\<lparr>disarm_timer := Some timeout_us\<rparr>)"

text \<open>The six keys \<^verbatim>\<open>clear_flag\<close> walks over, in the order of its array.\<close>

definition clear_flag_keys :: "string list" where
  "clear_flag_keys =
     [kKeyMagic, kKeyBoot, kKeyDirty, kKeyFirstBoot, kKeyAppSha256, kKeyAppHash]"

fun erase_keys :: "string list \<Rightarrow> drd_state \<Rightarrow> drd_state" where
  "erase_keys [] s = s"
| "erase_keys (key # keys) s = erase_keys keys (snd (nvs_erase_key key s))"

definition clear_flag :: "drd_state \<Rightarrow> drd_state" where
  "clear_flag s =
     (if backend s = RTC then s\<lparr>s_rtc_magic := 0\<rparr>
      else if \<not> nvs_ready s then s
      else snd (nvs_commit (erase_keys clear_flag_keys s)))"

definition disarm_timer_cb :: "drd_state \<Rightarrow> drd_state" where
  "disarm_timer_cb s =
     (let s1 = s\<lparr>disarm_timer := None\<rparr>
      in if backend s1 = RTC then clear_flag s1
         else if \<not> nvs_ready s1 then s1
         else
           let (err, s2) = nvs_erase_key kKeyMagic s1;
               (err_commit, s3) = nvs_commit s2
           in s3)"

definition arm_timer_cb :: "drd_state \<Rightarrow> drd_state" where
  "arm_timer_cb s =
     (let s1 = s\<lparr>arm_timer := None\<rparr>
      in if backend s1 \<noteq> NVS \<or> \<not> nvs_ready s1 then s1
         else
           let (err, s2) = nvs_set_u8 kKeyDirty 0 s1
           in if err \<noteq> ESP_OK then s2
              else
                let (err, s3) = nvs_set_u32 kKeyMagic kDrdMagic s2
                in if err \<noteq> ESP_OK then s3
                   else
                     let (err, s4) = nvs_commit s3
                     in if err \<noteq> ESP_OK then s4
                        else schedule_disarm (arm_window_s s4) s4)"

definition cancel_arm :: "drd_state \<Rightarrow> drd_state" where
  "cancel_arm s =
     (if arm_timer s = None then s
      else (emit (TimerDelete ''drd_arm'') (emit (TimerStop ''drd_arm'') s))
             \<lparr>arm_timer := None, arm_window_s := 0\<rparr>)"

definition schedule_arm :: "drd_config \<Rightarrow> 32 word \<Rightarrow> drd_state \<Rightarrow> drd_state" where
  "schedule_arm cfg window_s s =
     (let s1 = (cancel_arm s)\<lparr>arm_window_s := window_s\<rparr>;
          delay_s = CONFIG_DRD_ARM_DELAY_SECONDS cfg
      in if delay_s = 0 then arm_timer_cb s1
         else
           let delay_us = (ucast delay_s :: 64 word) * 1000000;
               (err, s2) = esp_timer_create ''drd_arm'' s1
           in if err \<noteq> ESP_OK then s2\<lparr>arm_timer := None\<rparr>
              else
                let (err2, s3) = esp_timer_start_once ''drd_arm'' delay_us s2
                in if err2 \<noteq> ESP_OK
                   then (emit (TimerDelete ''drd_arm'') s3)\<lparr>arm_timer := None\<rparr>
                   else s3\<lparr>arm_timer := Some delay_us\<rparr>)"

subsection \<open>configure\<close>

definition configure :: "drd_state \<Rightarrow> esp_err \<times> drd_state" where
  "configure s =
     (if configured s then (ESP_OK, s)
      else if backend s = NVS then
        let (err0, s1) = safe_nvs_init s;
            (err, s2) = nvs_open s1
        in if err \<noteq> ESP_OK
           then (err, s2\<lparr>nvs_ready := False, configured := True\<rparr>)
           else (err, s2\<lparr>nvs_ready := True, configured := True\<rparr>)
      else (ESP_OK, s\<lparr>configured := True\<rparr>))"

subsection \<open>check_and_clear\<close>

text \<open>
  The body of \<^verbatim>\<open>check_and_clear(uint32_t)\<close> is one long function. The model keeps
  its order and cuts it at the blank lines between its stages: the RTC block (lines
  285-311), and for NVS the identity reads (322-405), the identity update (430-496), the
  dirty-flag read (498-516), the marker read (523-531) and the four-way decision
  (533-628).
\<close>

definition check_rtc :: "bool \<Rightarrow> 32 word \<Rightarrow> drd_state \<Rightarrow> bool \<times> drd_state" where
  "check_rtc tooling_reset window_s s =
     (if tooling_reset then (False, s\<lparr>s_rtc_magic := 0, cached_result := False\<rparr>)
      else
        let (double_reset, s1) =
              (if s_rtc_magic s = kDrdMagic then (True, s\<lparr>s_rtc_magic := 0\<rparr>)
               else (False, schedule_disarm window_s (s\<lparr>s_rtc_magic := kDrdMagic\<rparr>)))
        in (double_reset, s1\<lparr>cached_result := double_reset\<rparr>))"

text \<open>
  The first-boot flag is read here and written by the identity update, but
  \<^verbatim>\<open>first_boot_seen\<close> only feeds a log line, so its value is dropped.
\<close>

definition nvs_identity_read :: "drd_state \<Rightarrow> 8 word list \<times> bool \<times> bool \<times> drd_state" where
  "nvs_identity_read s =
     (let (have_sha, current_sha) =
            get_current_app_sha256 (app_elf_sha256 s) (replicate kSha256Len 0);
          s1 = (if \<not> have_sha then s\<lparr>firmware_id_dirty := True\<rparr> else s);
          (err_sha, stored_sha, stored_len, s2) =
            nvs_get_blob kKeyAppSha256 (replicate kSha256Len 0) s1;
          stored_sha_valid = (err_sha = ESP_OK \<and> stored_len = kSha256Len);
          (err_legacy, legacy_hash, s3) = nvs_get_u32 kKeyAppHash 0 s2;
          legacy_present = (err_legacy = ESP_OK);
          (err_fb_read, first_boot_raw, s4) = nvs_get_u8 kKeyFirstBoot 0 s3;
          firmware_changed =
            (if \<not> stored_sha_valid then True
             else if take kSha256Len stored_sha \<noteq> take kSha256Len current_sha then True
             else False)
      in (current_sha, firmware_changed, legacy_present, s4))"

definition nvs_identity_update :: "8 word list \<Rightarrow> bool \<Rightarrow> drd_state \<Rightarrow> drd_state" where
  "nvs_identity_update current_sha legacy_present s =
     (let (err, s1) = nvs_erase_key kKeyMagic s;
          (err, s2) = nvs_set_blob kKeyAppSha256 current_sha s1;
          s3 = (if legacy_present then snd (nvs_erase_key kKeyAppHash s2) else s2);
          (err_dirty, s4) = nvs_set_u8 kKeyDirty 1 s3;
          (err_fb, s5) = nvs_set_u8 kKeyFirstBoot 1 s4;
          (err, s6) = nvs_commit s5
      in s6\<lparr>firmware_id_dirty := True\<rparr>)"

definition nvs_read_dirty :: "bool \<Rightarrow> drd_state \<Rightarrow> bool \<times> drd_state" where
  "nvs_read_dirty firmware_changed s =
     (let (err_fd, fw_dirty_val, s1) = nvs_get_u8 kKeyDirty 0 s;
          firmware_dirty =
            (if err_fd = ESP_OK then fw_dirty_val \<noteq> 0
             else if err_fd = ESP_ERR_NVS_NOT_FOUND
                  then firmware_changed \<or> firmware_id_dirty s1
             else True)
      in (firmware_dirty, s1))"

definition nvs_read_magic :: "drd_state \<Rightarrow> 32 word \<times> drd_state" where
  "nvs_read_magic s =
     (let (err_magic, stored_magic, s1) = nvs_get_u32 kKeyMagic 0 s
      in (stored_magic, s1))"

definition nvs_detection_branch :: "drd_state \<Rightarrow> drd_state" where
  "nvs_detection_branch s =
     (let s1 = cancel_disarm s;
          (err, s2) = nvs_erase_key kKeyMagic s1;
          (err, s3) = nvs_commit s2
      in s3)"

definition nvs_tooling_branch :: "drd_config \<Rightarrow> 32 word \<Rightarrow> drd_state \<Rightarrow> drd_state" where
  "nvs_tooling_branch cfg window_s s =
     (let (err, s1) = nvs_erase_key kKeyMagic s;
          (err, s2) = nvs_commit s1
      in schedule_arm cfg window_s s2)"

definition nvs_normal_branch :: "32 word \<Rightarrow> drd_state \<Rightarrow> drd_state" where
  "nvs_normal_branch window_s s =
     (let (err, s1) = nvs_set_u32 kKeyMagic kDrdMagic s
      in if err \<noteq> ESP_OK then s1
         else
           let (err, s2) = nvs_commit s1
           in if err \<noteq> ESP_OK then s2
              else schedule_disarm window_s s2)"

definition nvs_decide ::
  "drd_config \<Rightarrow> bool \<Rightarrow> bool \<Rightarrow> 32 word \<Rightarrow> 32 word \<Rightarrow> drd_state \<Rightarrow> bool \<times> drd_state" where
  "nvs_decide cfg tooling_reset firmware_dirty stored_magic window_s s =
     (if \<not> tooling_reset \<and> \<not> firmware_dirty \<and> stored_magic = kDrdMagic
      then (True, (nvs_detection_branch s)\<lparr>cached_result := True\<rparr>)
      else
        let s1 =
              (if firmware_dirty then schedule_arm cfg window_s s
               else if tooling_reset then nvs_tooling_branch cfg window_s s
               else nvs_normal_branch window_s s)
        in (False, s1\<lparr>cached_result := False\<rparr>))"

text \<open>
  So that one can say what a call arriving in the middle of an evaluation finds, the
  model of the evaluation returns, next to its result, the states the detector is in
  after each of its stages, in order; the last of them is the state it returns in.
\<close>

definition check_nvs_steps ::
  "drd_config \<Rightarrow> bool \<Rightarrow> 32 word \<Rightarrow> drd_state \<Rightarrow> bool \<times> drd_state list" where
  "check_nvs_steps cfg tooling_reset window_s s =
     (let (current_sha, firmware_changed, legacy_present, s1) = nvs_identity_read s;
          s2 = (if firmware_changed then nvs_identity_update current_sha legacy_present s1
                else s1);
          (firmware_dirty, s3) = nvs_read_dirty firmware_changed s2;
          (stored_magic, s4) = nvs_read_magic s3;
          (double_reset, s5) =
            nvs_decide cfg tooling_reset firmware_dirty stored_magic window_s s4
      in (double_reset, [s1, s2, s3, s4, s5]))"

definition check_nvs :: "drd_config \<Rightarrow> bool \<Rightarrow> 32 word \<Rightarrow> drd_state \<Rightarrow> bool \<times> drd_state" where
  "check_nvs cfg tooling_reset window_s s =
     (let (double_reset, steps) = check_nvs_steps cfg tooling_reset window_s s
      in (double_reset, last steps))"

text \<open>
  Lines 271-281: a detector that was never configured is configured now, and a failure
  of that call on the NVS backend switches the detector to RTC.
\<close>

definition configure_on_demand :: "drd_state \<Rightarrow> drd_state" where
  "configure_on_demand s =
     (if \<not> configured s then
        let (err, s1) = configure s
        in if err \<noteq> ESP_OK \<and> backend s1 = NVS then s1\<lparr>backend := RTC\<rparr> else s1
      else s)"

text \<open>
  \<^verbatim>\<open>check_and_clear(uint32_t)\<close>, lines 246-628. The first state of an evaluation
  is the one with \<^verbatim>\<open>evaluated_\<close> set and \<^verbatim>\<open>cached_result_\<close> cleared (lines
  253-254), the second the one after the on-demand configure, then come the stages of
  the backend.
\<close>

definition check_and_clear_steps ::
  "drd_config \<Rightarrow> 32 word \<Rightarrow> drd_state \<Rightarrow> bool \<times> drd_state list" where
  "check_and_clear_steps cfg window_s s =
     (if evaluated s then (cached_result s, [s])
      else
        let s1 = s\<lparr>evaluated := True, cached_result := False\<rparr>;
            tooling_reset = is_tooling_reset cfg (reset_reason s1);
            s2 = configure_on_demand s1
        in if backend s2 = RTC then
             let (double_reset, s3) = check_rtc tooling_reset window_s s2
             in (double_reset, [s1, s2, s3])
           else if \<not> nvs_ready s2 then (False, [s1, s2, s2\<lparr>cached_result := False\<rparr>])
           else
             let (double_reset, steps) = check_nvs_steps cfg tooling_reset window_s s2
             in (double_reset, s1 # s2 # steps))"

definition check_and_clear :: "drd_config \<Rightarrow> 32 word \<Rightarrow> drd_state \<Rightarrow> bool \<times> drd_state" where
  "check_and_clear cfg window_s s =
     (let (double_reset, steps) = check_and_clear_steps cfg window_s s
      in (double_reset, last steps))"

definition check_and_clear_default :: "drd_config \<Rightarrow> drd_state \<Rightarrow> bool \<times> drd_state" where
  "check_and_clear_default cfg s = check_and_clear cfg (CONFIG_DRD_WINDOW_SECONDS cfg) s"

text \<open>
  The state a process starts in: the member initialisers of the class, the backend the
  global detector was built with, and whatever the previous boot left in the RTC cell
  and the namespace.
\<close>

definition boot_state ::
  "Backend \<Rightarrow> 32 word \<Rightarrow> (string \<rightharpoonup> nvs_value) \<Rightarrow> esp_reset_reason \<Rightarrow> 8 word list option
     \<Rightarrow> bool list \<Rightarrow> drd_state" where
  "boot_state b rtc store reason app fs =
     \<lparr>backend = b, configured = False, nvs_ready = False, evaluated = False,
      cached_result = False, disarm_timer = None, arm_timer = None, arm_window_s = 0,
      firmware_id_dirty = False, s_rtc_magic = rtc, nvs_view = store, nvs_durable = store,
      reset_reason = reason, app_elf_sha256 = app, faults = fs, trace = []\<rparr>"

section \<open>Notions used by the properties\<close>

text \<open>
  \<open>fault_at n fs\<close>: the script \<open>fs\<close> makes the driver call number \<open>n\<close> (from 0)
  fail.
\<close>

definition fault_at :: "nat \<Rightarrow> bool list \<Rightarrow> bool" where
  "fault_at n fs = (n < length fs \<and> fs ! n)"

text \<open>
  The members no helper of \<^verbatim>\<open>check_and_clear\<close> writes, and the remaining fields no
  platform call writes.
\<close>

definition core :: "drd_state \<Rightarrow> Backend \<times> bool \<times> bool \<times> bool \<times> 32 word" where
  "core s = (backend s, configured s, nvs_ready s, evaluated s, s_rtc_magic s)"

definition aux ::
  "drd_state \<Rightarrow> bool \<times> 64 word option \<times> 64 word option \<times> 32 word \<times> bool
     \<times> esp_reset_reason \<times> 8 word list option" where
  "aux s = (cached_result s, disarm_timer s, arm_timer s, arm_window_s s,
            firmware_id_dirty s, reset_reason s, app_elf_sha256 s)"

definition is_timer_event :: "drd_event \<Rightarrow> bool" where
  "is_timer_event ev =
     (case ev of
        TimerCreate n e \<Rightarrow> True
      | TimerStartOnce n t e \<Rightarrow> True
      | TimerStop n \<Rightarrow> True
      | TimerDelete n \<Rightarrow> True
      | _ \<Rightarrow> False)"

text \<open>The persisted Dirty Flag reads as true: \<open>fw_dirty\<close> holds a nonzero byte.\<close>

definition dirty_flag_set :: "drd_state \<Rightarrow> bool" where
  "dirty_flag_set s =
     (case nvs_view s kKeyDirty of
        Some (U8 v) \<Rightarrow> v \<noteq> 0
      | _ \<Rightarrow> False)"

text \<open>
  The decision algorithm of the volatile backend in the words of the specification:
  (1) on a tooling reset erase the RTC marker and return false; (2) if the RTC marker
  equals \<open>MAGIC\<close> clear it and return true; (3) otherwise set the RTC marker to
  \<open>MAGIC\<close>, schedule disarm for \<open>window_seconds\<close> and return false.
\<close>

definition volatile_decision_spec :: "bool \<Rightarrow> 32 word \<Rightarrow> drd_state \<Rightarrow> bool \<times> drd_state" where
  "volatile_decision_spec tooling window_seconds s =
     (if tooling then (False, s\<lparr>s_rtc_magic := 0\<rparr>)
      else if s_rtc_magic s = kDrdMagic then (True, s\<lparr>s_rtc_magic := 0\<rparr>)
      else (False, schedule_disarm window_seconds (s\<lparr>s_rtc_magic := kDrdMagic\<rparr>)))"

subsection \<open>Concrete configurations and boots\<close>

definition demo_cfg :: drd_config where
  "demo_cfg = \<lparr>CONFIG_DRD_SUPPRESS_TOOLING_RESETS = True,
               CONFIG_DRD_ARM_DELAY_SECONDS = 5, CONFIG_DRD_WINDOW_SECONDS = 10\<rparr>"

definition demo_sha :: "8 word list" where
  "demo_sha = replicate 32 7"

text \<open>A namespace left by a clean boot of the running image that armed a window.\<close>

definition armed_store :: "string \<rightharpoonup> nvs_value" where
  "armed_store =
     [kKeyAppSha256 \<mapsto> Blob demo_sha, kKeyDirty \<mapsto> U8 0, kKeyFirstBoot \<mapsto> U8 1,
      kKeyMagic \<mapsto> U32 kDrdMagic]"

text \<open>A namespace of the running image, clean and without a marker.\<close>

definition clean_store :: "string \<rightharpoonup> nvs_value" where
  "clean_store =
     [kKeyAppSha256 \<mapsto> Blob demo_sha, kKeyDirty \<mapsto> U8 0, kKeyFirstBoot \<mapsto> U8 1]"

text \<open>The same namespace while the image is still dirty.\<close>

definition dirty_store :: "string \<rightharpoonup> nvs_value" where
  "dirty_store =
     [kKeyAppSha256 \<mapsto> Blob demo_sha, kKeyDirty \<mapsto> U8 1, kKeyFirstBoot \<mapsto> U8 1,
      kKeyMagic \<mapsto> U32 kDrdMagic]"

text \<open>A detector on the NVS backend whose namespace was opened, before its first evaluation.\<close>

definition ready_state :: "(string \<rightharpoonup> nvs_value) \<Rightarrow> bool list \<Rightarrow> drd_state" where
  "ready_state store fs =
     (boot_state NVS 0 store ESP_RST_POWERON (Some demo_sha) fs)
       \<lparr>configured := True, nvs_ready := True\<rparr>"

section \<open>The evaluation without its intermediate states\<close>

lemma check_nvs_unfold:
  "check_nvs cfg tooling_reset window_s s =
     (let (current_sha, firmware_changed, legacy_present, s1) = nvs_identity_read s;
          s2 = (if firmware_changed then nvs_identity_update current_sha legacy_present s1
                else s1);
          (firmware_dirty, s3) = nvs_read_dirty firmware_changed s2;
          (stored_magic, s4) = nvs_read_magic s3
      in nvs_decide cfg tooling_reset firmware_dirty stored_magic window_s s4)"
  by (simp add: check_nvs_def check_nvs_steps_def Let_def split_beta)

lemma check_and_clear_unfold:
  "check_and_clear cfg window_s s =
     (if evaluated s then (cached_result s, s)
      else
        let s1 = s\<lparr>evaluated := True, cached_result := False\<rparr>;
            tooling_reset = is_tooling_reset cfg (reset_reason s1);
            s2 = configure_on_demand s1
        in if backend s2 = RTC then check_rtc tooling_reset window_s s2
           else if \<not> nvs_ready s2 then (False, s2\<lparr>cached_result := False\<rparr>)
           else check_nvs cfg tooling_reset window_s s2)"
  by (simp add: check_and_clear_def check_and_clear_steps_def check_nvs_def
      check_nvs_steps_def Let_def split_beta)

section \<open>Frame lemmas\<close>

lemma next_fault_eq:
  "next_fault s = (fault_at 0 (faults s), s\<lparr>faults := tl (faults s)\<rparr>)"
  by (cases "faults s") (simp_all add: next_fault_def fault_at_def)

lemmas platform_defs =
  nvs_flash_init_def nvs_open_def nvs_get_u8_def nvs_get_u32_def
  nvs_get_blob_def nvs_set_def nvs_erase_key_def nvs_commit_def esp_timer_create_def
  esp_timer_start_once_def emit_def next_fault_eq Let_def split_beta

lemmas typed_set_defs = nvs_set_u8_def nvs_set_u32_def nvs_set_blob_def

lemma Backend_not_NVS [simp]: "(b \<noteq> NVS) = (b = RTC)"
  by (cases b) simp_all

lemma Backend_not_RTC [simp]: "(b \<noteq> RTC) = (b = NVS)"
  by (cases b) simp_all

lemma core_fields:
  assumes "core s' = core s"
  shows "backend s' = backend s" and "configured s' = configured s"
    and "nvs_ready s' = nvs_ready s" and "evaluated s' = evaluated s"
    and "s_rtc_magic s' = s_rtc_magic s"
  using assms by (simp_all add: core_def)

lemma aux_fields:
  assumes "aux s' = aux s"
  shows "cached_result s' = cached_result s" and "disarm_timer s' = disarm_timer s"
    and "arm_timer s' = arm_timer s" and "arm_window_s s' = arm_window_s s"
    and "firmware_id_dirty s' = firmware_id_dirty s" and "reset_reason s' = reset_reason s"
    and "app_elf_sha256 s' = app_elf_sha256 s"
  using assms by (simp_all add: aux_def)

lemma core_upd [simp]:
  "core (s\<lparr>faults := a\<rparr>) = core s"
  "core (s\<lparr>trace := b\<rparr>) = core s"
  "core (s\<lparr>nvs_view := c\<rparr>) = core s"
  "core (s\<lparr>nvs_durable := d\<rparr>) = core s"
  "core (s\<lparr>disarm_timer := e\<rparr>) = core s"
  "core (s\<lparr>arm_timer := f\<rparr>) = core s"
  "core (s\<lparr>arm_window_s := g\<rparr>) = core s"
  "core (s\<lparr>firmware_id_dirty := h\<rparr>) = core s"
  "core (s\<lparr>cached_result := i\<rparr>) = core s"
  by (simp_all add: core_def)

lemma core_emit [simp]: "core (emit ev s) = core s"
  by (simp add: emit_def)

lemma core_prims [simp]:
  "core (snd (nvs_flash_init s)) = core s"
  "core (snd (nvs_open s)) = core s"
  "core (snd (snd (nvs_get_u8 k o8 s))) = core s"
  "core (snd (snd (nvs_get_u32 k o32 s))) = core s"
  "core (snd (snd (snd (nvs_get_blob k ob s)))) = core s"
  "core (snd (nvs_set k v s)) = core s"
  "core (snd (nvs_erase_key k s)) = core s"
  "core (snd (nvs_commit s)) = core s"
  "core (snd (esp_timer_create n s)) = core s"
  "core (snd (esp_timer_start_once n t s)) = core s"
  by (simp_all add: platform_defs)

lemma core_set_typed [simp]:
  "core (snd (nvs_set_u8 k v8 s)) = core s"
  "core (snd (nvs_set_u32 k v32 s)) = core s"
  "core (snd (nvs_set_blob k vb s)) = core s"
  by (simp_all add: typed_set_defs)

lemma aux_prims [simp]:
  "aux (emit ev s) = aux s"
  "aux (snd (nvs_flash_init s)) = aux s"
  "aux (snd (nvs_open s)) = aux s"
  "aux (snd (snd (nvs_get_u8 k o8 s))) = aux s"
  "aux (snd (snd (nvs_get_u32 k o32 s))) = aux s"
  "aux (snd (snd (snd (nvs_get_blob k ob s)))) = aux s"
  "aux (snd (nvs_set k v s)) = aux s"
  "aux (snd (nvs_erase_key k s)) = aux s"
  "aux (snd (nvs_commit s)) = aux s"
  "aux (snd (esp_timer_create n s)) = aux s"
  "aux (snd (esp_timer_start_once n t s)) = aux s"
  by (simp_all add: platform_defs aux_def)

lemma aux_set_typed [simp]:
  "aux (snd (nvs_set_u8 k v8 s)) = aux s"
  "aux (snd (nvs_set_u32 k v32 s)) = aux s"
  "aux (snd (nvs_set_blob k vb s)) = aux s"
  by (simp_all add: typed_set_defs)

lemma view_prims [simp]:
  "nvs_view (emit ev s) = nvs_view s"
  "nvs_view (snd (nvs_flash_init s)) = nvs_view s"
  "nvs_view (snd (nvs_open s)) = nvs_view s"
  "nvs_view (snd (snd (nvs_get_u8 k o8 s))) = nvs_view s"
  "nvs_view (snd (snd (nvs_get_u32 k o32 s))) = nvs_view s"
  "nvs_view (snd (snd (snd (nvs_get_blob k ob s)))) = nvs_view s"
  "nvs_view (snd (nvs_commit s)) = nvs_view s"
  "nvs_view (snd (esp_timer_create n s)) = nvs_view s"
  "nvs_view (snd (esp_timer_start_once n t s)) = nvs_view s"
  by (simp_all add: platform_defs)

lemma view_set:
  "nvs_view (snd (nvs_set k v s)) =
     (if fst (nvs_set k v s) = ESP_OK then (nvs_view s)(k \<mapsto> v) else nvs_view s)"
  by (simp add: platform_defs)

lemma view_erase:
  "nvs_view (snd (nvs_erase_key k s)) =
     (if fst (nvs_erase_key k s) = ESP_FAIL then nvs_view s else (nvs_view s)(k := None))"
  by (auto simp add: platform_defs)

lemma durable_prims [simp]:
  "nvs_durable (emit ev s) = nvs_durable s"
  "nvs_durable (snd (nvs_flash_init s)) = nvs_durable s"
  "nvs_durable (snd (nvs_open s)) = nvs_durable s"
  "nvs_durable (snd (snd (nvs_get_u8 k o8 s))) = nvs_durable s"
  "nvs_durable (snd (snd (nvs_get_u32 k o32 s))) = nvs_durable s"
  "nvs_durable (snd (snd (snd (nvs_get_blob k ob s)))) = nvs_durable s"
  "nvs_durable (snd (nvs_set k v s)) = nvs_durable s"
  "nvs_durable (snd (nvs_erase_key k s)) = nvs_durable s"
  "nvs_durable (snd (esp_timer_create n s)) = nvs_durable s"
  "nvs_durable (snd (esp_timer_start_once n t s)) = nvs_durable s"
  by (simp_all add: platform_defs)

lemma durable_commit:
  "nvs_durable (snd (nvs_commit s)) =
     (if fst (nvs_commit s) = ESP_OK then nvs_view s else nvs_durable s)"
  by (simp add: platform_defs)

lemma trace_prims:
  "trace (emit ev s) = trace s @ [ev]"
  "trace (snd (nvs_flash_init s)) = trace s @ [NvsFlashInit (fst (nvs_flash_init s))]"
  "trace (snd (nvs_open s)) = trace s @ [NvsOpen (fst (nvs_open s))]"
  "trace (snd (snd (nvs_get_u8 k o8 s))) = trace s @ [NvsGet k (fst (nvs_get_u8 k o8 s))]"
  "trace (snd (snd (nvs_get_u32 k o32 s))) = trace s @ [NvsGet k (fst (nvs_get_u32 k o32 s))]"
  "trace (snd (snd (snd (nvs_get_blob k ob s)))) = trace s @ [NvsGet k (fst (nvs_get_blob k ob s))]"
  "trace (snd (nvs_set k v s)) = trace s @ [NvsSet k v (fst (nvs_set k v s))]"
  "trace (snd (nvs_erase_key k s)) = trace s @ [NvsErase k (fst (nvs_erase_key k s))]"
  "trace (snd (nvs_commit s)) = trace s @ [NvsCommit (fst (nvs_commit s))]"
  "trace (snd (esp_timer_create n s)) = trace s @ [TimerCreate n (fst (esp_timer_create n s))]"
  "trace (snd (esp_timer_start_once n t s)) =
     trace s @ [TimerStartOnce n t (fst (esp_timer_start_once n t s))]"
  by (simp_all add: platform_defs)

lemma faults_prims:
  "faults (emit ev s) = faults s"
  "faults (snd (nvs_flash_init s)) = tl (faults s)"
  "faults (snd (nvs_open s)) = tl (faults s)"
  "faults (snd (snd (nvs_get_u8 k o8 s))) = tl (faults s)"
  "faults (snd (snd (nvs_get_u32 k o32 s))) = tl (faults s)"
  "faults (snd (snd (snd (nvs_get_blob k ob s)))) = tl (faults s)"
  "faults (snd (nvs_set k v s)) = tl (faults s)"
  "faults (snd (nvs_erase_key k s)) = tl (faults s)"
  "faults (snd (nvs_commit s)) = tl (faults s)"
  "faults (snd (esp_timer_create n s)) = tl (faults s)"
  "faults (snd (esp_timer_start_once n t s)) = tl (faults s)"
  by (simp_all add: platform_defs)

lemma status_prims:
  "fst (nvs_flash_init s) = (if fault_at 0 (faults s) then ESP_FAIL else ESP_OK)"
  "fst (nvs_open s) = (if fault_at 0 (faults s) then ESP_FAIL else ESP_OK)"
  "fst (nvs_set k v s) = (if fault_at 0 (faults s) then ESP_FAIL else ESP_OK)"
  "fst (nvs_commit s) = (if fault_at 0 (faults s) then ESP_FAIL else ESP_OK)"
  "fst (esp_timer_create n s) = (if fault_at 0 (faults s) then ESP_FAIL else ESP_OK)"
  "fst (esp_timer_start_once n t s) = (if fault_at 0 (faults s) then ESP_FAIL else ESP_OK)"
  "fst (nvs_erase_key k s) =
     (if fault_at 0 (faults s) then ESP_FAIL
      else if nvs_view s k = None then ESP_ERR_NVS_NOT_FOUND else ESP_OK)"
  by (simp_all add: platform_defs)

lemma fault_at_tl: "fault_at n (tl fs) = fault_at (Suc n) fs"
  by (cases fs) (simp_all add: fault_at_def)

lemma fault_at_Nil [simp]: "\<not> fault_at n []"
  by (simp add: fault_at_def)

subsection \<open>Composite operations keep the core members\<close>

lemma core_cancel_disarm [simp]: "core (cancel_disarm s) = core s"
  by (simp add: cancel_disarm_def)

lemma core_schedule_disarm [simp]: "core (schedule_disarm w s) = core s"
  by (simp add: schedule_disarm_def Let_def split_beta)

lemma core_arm_timer_cb [simp]: "core (arm_timer_cb s) = core s"
  by (simp add: arm_timer_cb_def Let_def split_beta)

lemma core_cancel_arm [simp]: "core (cancel_arm s) = core s"
  by (simp add: cancel_arm_def)

lemma core_schedule_arm [simp]: "core (schedule_arm cfg w s) = core s"
  by (simp add: schedule_arm_def Let_def split_beta)

lemma core_nvs_identity_read [simp]: "core (snd (snd (snd (nvs_identity_read s)))) = core s"
  by (simp add: nvs_identity_read_def Let_def split_beta)

lemma core_nvs_identity_update [simp]: "core (nvs_identity_update sha lp s) = core s"
  by (simp add: nvs_identity_update_def Let_def split_beta)

lemma core_nvs_read_dirty [simp]: "core (snd (nvs_read_dirty fc s)) = core s"
  by (simp add: nvs_read_dirty_def Let_def split_beta)

lemma core_nvs_read_magic [simp]: "core (snd (nvs_read_magic s)) = core s"
  by (simp add: nvs_read_magic_def Let_def split_beta)

lemma core_nvs_branches [simp]:
  "core (nvs_detection_branch s) = core s"
  "core (nvs_tooling_branch cfg w s) = core s"
  "core (nvs_normal_branch w s) = core s"
  by (simp_all add: nvs_detection_branch_def nvs_tooling_branch_def nvs_normal_branch_def
      Let_def split_beta)

lemma core_nvs_decide [simp]: "core (snd (nvs_decide cfg t d m w s)) = core s"
  by (simp add: nvs_decide_def Let_def)

lemma core_check_nvs [simp]: "core (snd (check_nvs cfg t w s)) = core s"
  by (simp add: check_nvs_unfold Let_def split_beta)

lemma core_erase_keys [simp]: "core (erase_keys ks s) = core s"
  by (induction ks arbitrary: s) simp_all

lemma keys_distinct [simp]:
  "kKeyMagic \<noteq> kKeyDirty" "kKeyDirty \<noteq> kKeyMagic"
  "kKeyAppSha256 \<noteq> kKeyDirty" "kKeyDirty \<noteq> kKeyAppSha256"
  "kKeyAppHash \<noteq> kKeyDirty" "kKeyDirty \<noteq> kKeyAppHash"
  "kKeyFirstBoot \<noteq> kKeyDirty" "kKeyDirty \<noteq> kKeyFirstBoot"
  "kKeyAppSha256 \<noteq> kKeyMagic" "kKeyMagic \<noteq> kKeyAppSha256"
  "kKeyAppHash \<noteq> kKeyMagic" "kKeyMagic \<noteq> kKeyAppHash"
  "kKeyFirstBoot \<noteq> kKeyMagic" "kKeyMagic \<noteq> kKeyFirstBoot"
  by (simp_all add: kKeyMagic_def kKeyDirty_def kKeyAppSha256_def kKeyAppHash_def
      kKeyFirstBoot_def)

subsection \<open>What the timer operations touch\<close>

lemma is_timer_event_simps [simp]:
  "is_timer_event (TimerCreate n e)"
  "is_timer_event (TimerStartOnce n t e)"
  "is_timer_event (TimerStop n)"
  "is_timer_event (TimerDelete n)"
  "\<not> is_timer_event (NvsGet k e)"
  "\<not> is_timer_event (NvsSet k v e)"
  "\<not> is_timer_event (NvsErase k e)"
  "\<not> is_timer_event (NvsCommit e)"
  by (simp_all add: is_timer_event_def)

lemma cancel_disarm_fields [simp]:
  "disarm_timer (cancel_disarm s) = None"
  "nvs_view (cancel_disarm s) = nvs_view s"
  "nvs_durable (cancel_disarm s) = nvs_durable s"
  "faults (cancel_disarm s) = faults s"
  by (simp_all add: cancel_disarm_def emit_def)

lemma trace_cancel_disarm:
  "\<exists>evs. trace (cancel_disarm s) = trace s @ evs \<and> list_all is_timer_event evs"
  by (simp add: cancel_disarm_def emit_def)

lemma schedule_disarm_stores [simp]:
  "nvs_view (schedule_disarm w s) = nvs_view s"
  "nvs_durable (schedule_disarm w s) = nvs_durable s"
  by (simp_all add: schedule_disarm_def Let_def split_beta)

lemma disarm_timer_schedule_disarm:
  "disarm_timer (schedule_disarm w s) =
     (if fault_at 0 (faults s) \<or> fault_at 1 (faults s) then None
      else Some ((ucast w :: 64 word) * 1000000))"
  by (simp add: schedule_disarm_def Let_def split_beta status_prims faults_prims fault_at_tl)

lemma trace_cancel_disarm_exact:
  "trace (cancel_disarm s) =
     trace s @ (if disarm_timer s = None then []
                else [TimerStop ''drd_disarm'', TimerDelete ''drd_disarm''])"
  by (simp add: cancel_disarm_def emit_def)

lemma trace_schedule_disarm_exact:
  "trace (schedule_disarm w s) =
     trace s @
     (if disarm_timer s = None then []
      else [TimerStop ''drd_disarm'', TimerDelete ''drd_disarm'']) @
     (if fault_at 0 (faults s) then [TimerCreate ''drd_disarm'' ESP_FAIL]
      else if fault_at 1 (faults s)
      then [TimerCreate ''drd_disarm'' ESP_OK,
            TimerStartOnce ''drd_disarm'' ((ucast w :: 64 word) * 1000000) ESP_FAIL,
            TimerDelete ''drd_disarm'']
      else [TimerCreate ''drd_disarm'' ESP_OK,
            TimerStartOnce ''drd_disarm'' ((ucast w :: 64 word) * 1000000) ESP_OK])"
  by (simp add: schedule_disarm_def Let_def split_beta trace_prims status_prims faults_prims
      fault_at_tl trace_cancel_disarm_exact)

lemma trace_schedule_disarm:
  "\<exists>evs. trace (schedule_disarm w s) = trace s @ evs \<and> evs \<noteq> [] \<and> list_all is_timer_event evs"
proof -
  obtain evs where evs: "trace (cancel_disarm s) = trace s @ evs" "list_all is_timer_event evs"
    using trace_cancel_disarm by blast
  show ?thesis
    by (simp add: schedule_disarm_def Let_def split_beta trace_prims evs)
qed

lemmas concrete_defs =
  boot_state_def demo_cfg_def demo_sha_def armed_store_def dirty_store_def fault_at_def
  is_tooling_reset_def kDrdMagic_def kSha256Len_def
  kKeyMagic_def kKeyBoot_def kKeyAppHash_def kKeyAppSha256_def kKeyDirty_def kKeyFirstBoot_def

lemmas run_defs =
  configure_def configure_on_demand_def safe_nvs_init_def
  nvs_flash_init_def nvs_open_def nvs_get_u8_def nvs_get_u32_def nvs_get_blob_def
  nvs_set_def nvs_set_u8_def nvs_set_u32_def nvs_set_blob_def nvs_erase_key_def
  nvs_commit_def esp_timer_create_def esp_timer_start_once_def next_fault_def emit_def
  cancel_disarm_def schedule_disarm_def cancel_arm_def

lemmas stage_defs =
  check_and_clear_unfold check_nvs_unfold nvs_identity_read_def nvs_read_dirty_def
  nvs_read_magic_def get_current_app_sha256_def

subsection \<open>The evaluated flag and the cached result\<close>

lemma evaluated_configure [simp]: "evaluated (snd (configure s)) = evaluated s"
  by (simp add: configure_def safe_nvs_init_def Let_def split_beta
      core_fields(4) [OF core_prims(2)] core_fields(4) [OF core_prims(1)])

lemma evaluated_configure_on_demand [simp]:
  "evaluated (configure_on_demand s) = evaluated s"
  by (simp add: configure_on_demand_def Let_def split_beta)

lemma evaluated_check_rtc [simp]: "evaluated (snd (check_rtc t w s)) = evaluated s"
  by (simp add: check_rtc_def Let_def split_beta core_fields(4) [OF core_schedule_disarm])

lemma evaluated_check_nvs [simp]: "evaluated (snd (check_nvs cfg t w s)) = evaluated s"
  by (rule core_fields [OF core_check_nvs])

lemma evaluated_clear_flag [simp]: "evaluated (clear_flag s) = evaluated s"
  by (simp add: clear_flag_def core_fields(4) [OF core_prims(8)]
      core_fields(4) [OF core_erase_keys])

lemma evaluated_disarm_timer_cb [simp]: "evaluated (disarm_timer_cb s) = evaluated s"
  by (simp add: disarm_timer_cb_def Let_def split_beta
      core_fields(4) [OF core_prims(8)] core_fields(4) [OF core_prims(7)])

lemma cached_check_rtc: "cached_result (snd (check_rtc t w s)) = fst (check_rtc t w s)"
  by (simp add: check_rtc_def Let_def split_beta)

lemma cached_nvs_decide:
  "cached_result (snd (nvs_decide cfg t d m w s)) = fst (nvs_decide cfg t d m w s)"
  by (simp add: nvs_decide_def Let_def)

lemma cached_check_nvs: "cached_result (snd (check_nvs cfg t w s)) = fst (check_nvs cfg t w s)"
  by (simp add: check_nvs_unfold Let_def split_beta cached_nvs_decide)

lemma check_and_clear_evaluated: "evaluated (snd (check_and_clear cfg w s))"
  by (simp add: check_and_clear_unfold Let_def)

lemma check_and_clear_caches:
  "\<not> evaluated s \<Longrightarrow>
     cached_result (snd (check_and_clear cfg w s)) = fst (check_and_clear cfg w s)"
  by (simp add: check_and_clear_unfold Let_def cached_check_rtc cached_check_nvs)

lemma check_and_clear_again: "evaluated s \<Longrightarrow> check_and_clear cfg w s = (cached_result s, s)"
  by (simp add: check_and_clear_unfold)

lemma configure_rtc:
  "backend s = RTC \<Longrightarrow> configure_on_demand s = s\<lparr>configured := True\<rparr>"
  by (simp add: configure_on_demand_def configure_def)

subsection \<open>The detection branch\<close>

lemma detection_branch_effect:
  "disarm_timer (nvs_detection_branch t) = None \<and>
   (\<exists>pre e1 e2. trace (nvs_detection_branch t) = pre @ [NvsErase kKeyMagic e1, NvsCommit e2] \<and>
      (e1 \<noteq> ESP_FAIL \<longrightarrow> nvs_view (nvs_detection_branch t) kKeyMagic = None) \<and>
      (e1 \<noteq> ESP_FAIL \<and> e2 = ESP_OK \<longrightarrow> nvs_durable (nvs_detection_branch t) kKeyMagic = None))"
proof -
  let ?s1 = "cancel_disarm t"
  let ?s2 = "snd (nvs_erase_key kKeyMagic ?s1)"
  let ?s3 = "snd (nvs_commit ?s2)"
  have b: "nvs_detection_branch t = ?s3"
    by (simp add: nvs_detection_branch_def Let_def split_beta)
  have d: "disarm_timer ?s3 = None"
    by (simp add: aux_fields(2) [OF aux_prims(9)] aux_fields(2) [OF aux_prims(8)])
  have t: "trace ?s3 = trace ?s1 @ [NvsErase kKeyMagic (fst (nvs_erase_key kKeyMagic ?s1)),
      NvsCommit (fst (nvs_commit ?s2))]"
    by (simp add: trace_prims)
  have v: "fst (nvs_erase_key kKeyMagic ?s1) \<noteq> ESP_FAIL \<longrightarrow> nvs_view ?s3 kKeyMagic = None"
    by (simp add: view_erase)
  have u: "fst (nvs_erase_key kKeyMagic ?s1) \<noteq> ESP_FAIL \<and> fst (nvs_commit ?s2) = ESP_OK \<longrightarrow>
      nvs_durable ?s3 kKeyMagic = None"
    by (simp add: durable_commit view_erase)
  show ?thesis
    unfolding b using d t v u by blast
qed

lemma check_nvs_true:
  "fst (check_nvs cfg tr w s) \<Longrightarrow>
     \<exists>t. snd (check_nvs cfg tr w s) = (nvs_detection_branch t)\<lparr>cached_result := True\<rparr>"
  by (auto simp add: check_nvs_unfold nvs_decide_def Let_def split_beta split: if_splits)

lemma check_rtc_true:
  "fst (check_rtc tr w s) \<Longrightarrow> s_rtc_magic (snd (check_rtc tr w s)) = 0"
  by (auto simp add: check_rtc_def Let_def split: if_splits)

lemma backend_check_rtc [simp]: "backend (snd (check_rtc tr w s)) = backend s"
  by (simp add: check_rtc_def Let_def split_beta core_fields(1) [OF core_schedule_disarm])

subsection \<open>The dirty flag through the NVS path\<close>


lemma stores_configure [simp]:
  "nvs_view (snd (configure s)) = nvs_view s"
  "nvs_durable (snd (configure s)) = nvs_durable s"
  by (simp_all add: configure_def safe_nvs_init_def Let_def split_beta)

lemma view_configure_on_demand [simp]: "nvs_view (configure_on_demand s) = nvs_view s"
  by (simp add: configure_on_demand_def Let_def split_beta)

lemma view_nvs_identity_read [simp]:
  "nvs_view (snd (snd (snd (nvs_identity_read s)))) = nvs_view s"
  by (simp add: nvs_identity_read_def Let_def split_beta)

lemma dirty_identity_update:
  "nvs_view (nvs_identity_update sha lp s) kKeyDirty = Some (U8 1) \<or>
   nvs_view (nvs_identity_update sha lp s) kKeyDirty = nvs_view s kKeyDirty"
  by (simp add: nvs_identity_update_def nvs_set_u8_def nvs_set_blob_def Let_def split_beta
      view_set view_erase)

lemma dirty_flag_set_identity_update:
  "dirty_flag_set s \<Longrightarrow> dirty_flag_set (nvs_identity_update sha lp s)"
  using dirty_identity_update [of sha lp s] by (auto simp add: dirty_flag_set_def)

lemma nvs_read_dirty_set: "dirty_flag_set s \<Longrightarrow> fst (nvs_read_dirty fc s)"
  by (auto simp add: nvs_read_dirty_def nvs_get_u8_def next_fault_eq dirty_flag_set_def Let_def
      split: option.splits nvs_value.splits)

lemma nvs_decide_dirty: "\<not> fst (nvs_decide cfg tr True m w s)"
  by (simp add: nvs_decide_def Let_def)

lemma check_nvs_dirty: "dirty_flag_set s \<Longrightarrow> \<not> fst (check_nvs cfg tr w s)"
proof -
  assume d: "dirty_flag_set s"
  let ?r = "nvs_identity_read s"
  let ?s1 = "snd (snd (snd ?r))"
  let ?s2 = "if fst (snd ?r) then nvs_identity_update (fst ?r) (fst (snd (snd ?r))) ?s1 else ?s1"
  have "dirty_flag_set ?s1"
    using d by (simp add: dirty_flag_set_def)
  then have "dirty_flag_set ?s2"
    by (simp add: dirty_flag_set_identity_update)
  then have "fst (nvs_read_dirty (fst (snd ?r)) ?s2)"
    by (rule nvs_read_dirty_set)
  then show ?thesis
    by (simp add: check_nvs_unfold Let_def split_beta nvs_decide_dirty)
qed

lemma backend_configure_on_demand:
  "backend (configure_on_demand s) =
     (if backend s = NVS \<and> \<not> configured s \<and> fault_at 1 (faults s) then RTC else backend s)"
  by (simp add: configure_on_demand_def configure_def safe_nvs_init_def Let_def split_beta
      status_prims faults_prims fault_at_tl core_fields(1) [OF core_prims(2)]
      core_fields(1) [OF core_prims(1)])

subsection \<open>The backend after a failed configure\<close>


lemma stores_check_rtc [simp]:
  "nvs_view (snd (check_rtc tr w s)) = nvs_view s"
  "nvs_durable (snd (check_rtc tr w s)) = nvs_durable s"
  by (simp_all add: check_rtc_def Let_def split_beta)


lemma backend_configure [simp]: "backend (snd (configure s)) = backend s"
  by (simp add: configure_def safe_nvs_init_def Let_def split_beta
      core_fields(1) [OF core_prims(2)] core_fields(1) [OF core_prims(1)])

lemma configure_result_by_fault:
  "fst (configure s) =
     (if \<not> configured s \<and> backend s = NVS \<and> fault_at 1 (faults s) then ESP_FAIL else ESP_OK)"
  by (simp add: configure_def safe_nvs_init_def Let_def split_beta status_prims faults_prims
      fault_at_tl)

lemma rtc_stays:
  assumes "backend t = RTC"
  shows "backend (snd (check_and_clear cfg w t)) = RTC"
    and "backend (clear_flag t) = RTC"
    and "backend (snd (configure t)) = RTC"
    and "backend (disarm_timer_cb t) = RTC"
    and "backend (arm_timer_cb t) = RTC"
proof -
  show "backend (snd (check_and_clear cfg w t)) = RTC"
    using assms by (simp add: check_and_clear_unfold configure_rtc Let_def)
  show "backend (clear_flag t) = RTC"
    using assms by (simp add: clear_flag_def)
  show "backend (snd (configure t)) = RTC"
    using assms by simp
  show "backend (disarm_timer_cb t) = RTC"
    using assms by (simp add: disarm_timer_cb_def clear_flag_def Let_def)
  show "backend (arm_timer_cb t) = RTC"
    using assms by (simp add: core_fields(1) [OF core_arm_timer_cb])
qed

subsection \<open>Erasing a list of keys\<close>

lemma erase_keys_absent_stays:
  "nvs_view s k = None \<Longrightarrow> nvs_view (erase_keys ks s) k = None"
  by (induction ks arbitrary: s) (simp_all add: view_erase)

lemma erase_keys_other:
  "k \<notin> set ks \<Longrightarrow> nvs_view (erase_keys ks s) k = nvs_view s k"
  by (induction ks arbitrary: s) (auto simp add: view_erase)

lemma durable_erase_keys [simp]: "nvs_durable (erase_keys ks s) = nvs_durable s"
  by (induction ks arbitrary: s) simp_all

lemma faults_erase_keys: "faults (erase_keys ks s) = drop (length ks) (faults s)"
  by (induction ks arbitrary: s) (simp_all add: faults_prims drop_Suc)

lemma fault_at_drop: "fault_at n (drop m fs) = fault_at (m + n) fs"
  by (auto simp add: fault_at_def)

lemma view_erase_keys:
  "i < length ks \<Longrightarrow> \<not> fault_at i (faults s) \<Longrightarrow> nvs_view (erase_keys ks s) (ks ! i) = None"
proof (induction ks arbitrary: s i)
  case Nil
  then show ?case by simp
next
  case (Cons k ks)
  show ?case
  proof (cases i)
    case 0
    with Cons.prems have "nvs_view (snd (nvs_erase_key k s)) k = None"
      by (simp add: view_erase status_prims)
    then show ?thesis
      using 0 by (simp add: erase_keys_absent_stays)
  next
    case (Suc j)
    with Cons.prems have "j < length ks" and "\<not> fault_at j (faults (snd (nvs_erase_key k s)))"
      by (simp_all add: faults_prims fault_at_tl)
    then show ?thesis
      using Suc Cons.IH by simp
  qed
qed

lemma trace_erase_keys:
  "\<exists>es. length es = length ks \<and>
     trace (erase_keys ks s) = trace s @ map (\<lambda>(k, e). NvsErase k e) (zip ks es) \<and>
     (\<forall>i<length ks. (es ! i = ESP_FAIL) = fault_at i (faults s))"
proof (induction ks arbitrary: s)
  case Nil
  then show ?case by simp
next
  case (Cons k ks)
  let ?s1 = "snd (nvs_erase_key k s)"
  let ?e = "fst (nvs_erase_key k s)"
  from Cons.IH [of ?s1] obtain es where es: "length es = length ks"
    "trace (erase_keys ks ?s1) = trace ?s1 @ map (\<lambda>(k, e). NvsErase k e) (zip ks es)"
    "\<forall>i<length ks. (es ! i = ESP_FAIL) = fault_at i (faults ?s1)"
    by blast
  have e: "(?e = ESP_FAIL) = fault_at 0 (faults s)"
    by (simp add: status_prims)
  have "\<forall>i<length (k # ks). ((?e # es) ! i = ESP_FAIL) = fault_at i (faults s)"
  proof (intro allI impI)
    fix i assume "i < length (k # ks)"
    then show "((?e # es) ! i = ESP_FAIL) = fault_at i (faults s)"
      using es(3) e by (cases i) (simp_all add: faults_prims fault_at_tl)
  qed
  moreover have "trace (erase_keys (k # ks) s) =
      trace s @ map (\<lambda>(k, e). NvsErase k e) (zip (k # ks) (?e # es))"
    by (simp add: es(2) trace_prims)
  ultimately show ?case
    using es(1) by (intro exI [of _ "?e # es"]) simp
qed

subsection \<open>The states of an evaluation\<close>

lemma check_nvs_steps_core:
  "list_all (\<lambda>t. core t = core s) (snd (check_nvs_steps cfg tr w s))"
  by (simp add: check_nvs_steps_def Let_def split_beta)

lemma check_and_clear_steps_evaluated:
  "\<not> evaluated s \<Longrightarrow> list_all evaluated (snd (check_and_clear_steps cfg w s))"
proof -
  assume n: "\<not> evaluated s"
  let ?s1 = "s\<lparr>evaluated := True, cached_result := False\<rparr>"
  let ?s2 = "configure_on_demand ?s1"
  have e2: "evaluated ?s2"
    by simp
  have "evaluated u" if "u \<in> set (snd (check_nvs_steps cfg tr w ?s2))" for tr u
  proof -
    from check_nvs_steps_core [of ?s2 cfg tr w] that have "core u = core ?s2"
      by (simp add: list_all_iff)
    from core_fields(4) [OF this] e2 show ?thesis
      by simp
  qed
  then have "list_all evaluated (snd (check_nvs_steps cfg tr w ?s2))" for tr
    by (simp add: list_all_iff)
  then show ?thesis
    using n e2 by (simp add: check_and_clear_steps_def Let_def split_beta)
qed

lemma check_and_clear_steps_hd:
  "\<not> evaluated s \<Longrightarrow>
     hd (snd (check_and_clear_steps cfg w s)) = s\<lparr>evaluated := True, cached_result := False\<rparr>"
  by (simp add: check_and_clear_steps_def Let_def split_beta)

lemma check_and_clear_steps_last:
  "snd (check_and_clear cfg w s) = last (snd (check_and_clear_steps cfg w s))"
  by (simp add: check_and_clear_def split_beta)

lemma clear_flag_keys_literal:
  "clear_flag_keys =
     [''magic'', ''last_boot_us'', ''fw_dirty'', ''first_boot'', ''app_sha256'', ''app_hash'']"
  by (simp add: clear_flag_keys_def kKeyMagic_def kKeyBoot_def kKeyDirty_def kKeyFirstBoot_def
      kKeyAppSha256_def kKeyAppHash_def)

lemma list_of_length_six:
  assumes "length es = 6"
  obtains e0 e1 e2 e3 e4 e5 where "es = [e0, e1, e2, e3, e4, e5]"
  using assms by (auto simp add: eval_nat_numeral length_Suc_conv)

section \<open>Properties\<close>

subsection \<open>Single evaluation per boot\<close>




subsection \<open>The volatile backend\<close>

text \<open>
  C2: on the RTC backend the first \<^verbatim>\<open>check_and_clear\<close> of a boot marks the boot
  evaluated and the detector configured, and then does what the three-step algorithm of
  the volatile backend says. (1) On a tooling reset it returns false and the state
  differs only in those flags and in the RTC marker, which is zero: no timer call is
  made. (2) Otherwise, if the marker equals \<open>MAGIC\<close>, it returns true and again only
  the flags and the zeroed marker differ. (3) Otherwise it returns false, the marker is
  \<open>MAGIC\<close>, and the timer calls it made are: stop and delete of a disarm timer that
  existed, then \<^verbatim>\<open>esp_timer_create\<close>, then \<^verbatim>\<open>esp_timer_start_once\<close> with
  \<open>window_s * 1000000\<close> microseconds (and a delete if the start failed); the disarm
  handle holds that timer unless the create or the start failed. The namespace is not
  touched.
\<close>

theorem check_and_clear_rtc_algorithm:
  assumes "backend s = RTC" and "\<not> evaluated s"
  shows "check_and_clear cfg window_s s =
           (let (r, s1) = volatile_decision_spec (is_tooling_reset cfg (reset_reason s)) window_s
                            (s\<lparr>evaluated := True, cached_result := False, configured := True\<rparr>)
            in (r, s1\<lparr>cached_result := r\<rparr>)) \<and>
         (is_tooling_reset cfg (reset_reason s) \<longrightarrow>
            check_and_clear cfg window_s s =
              (False, s\<lparr>evaluated := True, cached_result := False, configured := True,
                        s_rtc_magic := 0\<rparr>)) \<and>
         (\<not> is_tooling_reset cfg (reset_reason s) \<and> s_rtc_magic s = kDrdMagic \<longrightarrow>
            check_and_clear cfg window_s s =
              (True, s\<lparr>evaluated := True, cached_result := True, configured := True,
                       s_rtc_magic := 0\<rparr>)) \<and>
         (\<not> is_tooling_reset cfg (reset_reason s) \<and> s_rtc_magic s \<noteq> kDrdMagic \<longrightarrow>
            fst (check_and_clear cfg window_s s) = False \<and>
            s_rtc_magic (snd (check_and_clear cfg window_s s)) = kDrdMagic \<and>
            trace (snd (check_and_clear cfg window_s s)) =
              trace s @
              (if disarm_timer s = None then []
               else [TimerStop ''drd_disarm'', TimerDelete ''drd_disarm'']) @
              (if fault_at 0 (faults s) then [TimerCreate ''drd_disarm'' ESP_FAIL]
               else if fault_at 1 (faults s)
               then [TimerCreate ''drd_disarm'' ESP_OK,
                     TimerStartOnce ''drd_disarm'' ((ucast window_s :: 64 word) * 1000000)
                       ESP_FAIL,
                     TimerDelete ''drd_disarm'']
               else [TimerCreate ''drd_disarm'' ESP_OK,
                     TimerStartOnce ''drd_disarm'' ((ucast window_s :: 64 word) * 1000000)
                       ESP_OK]) \<and>
            disarm_timer (snd (check_and_clear cfg window_s s)) =
              (if fault_at 0 (faults s) \<or> fault_at 1 (faults s) then None
               else Some ((ucast window_s :: 64 word) * 1000000)) \<and>
            nvs_view (snd (check_and_clear cfg window_s s)) = nvs_view s \<and>
            nvs_durable (snd (check_and_clear cfg window_s s)) = nvs_durable s)"
proof -
  let ?s1 = "s\<lparr>evaluated := True, cached_result := False\<rparr>"
  have c: "check_and_clear cfg window_s s =
      check_rtc (is_tooling_reset cfg (reset_reason s)) window_s (?s1\<lparr>configured := True\<rparr>)"
    using assms by (simp add: check_and_clear_unfold configure_rtc Let_def)
  show ?thesis
    unfolding c
    by (simp add: check_rtc_def volatile_decision_spec_def Let_def trace_schedule_disarm_exact
        disarm_timer_schedule_disarm core_fields(5) [OF core_schedule_disarm])
qed

theorem check_and_clear_rtc_algorithm_witness:
  "backend (boot_state RTC 0 Map.empty ESP_RST_POWERON None []) = RTC \<and>
   \<not> evaluated (boot_state RTC 0 Map.empty ESP_RST_POWERON None []) \<and>
   fst (check_and_clear demo_cfg 10 (boot_state RTC 0 Map.empty ESP_RST_POWERON None [])) = False \<and>
   s_rtc_magic (snd (check_and_clear demo_cfg 10
      (boot_state RTC 0 Map.empty ESP_RST_POWERON None []))) = kDrdMagic \<and>
   trace (snd (check_and_clear demo_cfg 10
      (boot_state RTC 0 Map.empty ESP_RST_POWERON None []))) =
     [TimerCreate ''drd_disarm'' ESP_OK, TimerStartOnce ''drd_disarm'' 10000000 ESP_OK] \<and>
   disarm_timer (snd (check_and_clear demo_cfg 10
      (boot_state RTC 0 Map.empty ESP_RST_POWERON None []))) = Some 10000000"
proof -
  let ?s = "boot_state RTC 0 Map.empty ESP_RST_POWERON None []"
  have h1: "backend ?s = RTC"
    by (simp add: boot_state_def)
  have h2: "\<not> evaluated ?s"
    by (simp add: boot_state_def)
  have f: "\<not> is_tooling_reset demo_cfg (reset_reason ?s)" "s_rtc_magic ?s \<noteq> kDrdMagic"
    "disarm_timer ?s = None" "faults ?s = []" "trace ?s = []"
    by (simp_all add: concrete_defs)
  have "(ucast (10 :: 32 word) :: 64 word) * 1000000 = 10000000"
    by simp
  with check_and_clear_rtc_algorithm [OF h1 h2, of demo_cfg 10,
      THEN conjunct2, THEN conjunct2, THEN conjunct2] f h1 h2
  show ?thesis by simp
qed


subsection \<open>A store that was never opened\<close>

text \<open>
  C10: with the NVS backend selected, the detector configured and the namespace not
  opened, the first \<^verbatim>\<open>check_and_clear\<close> of the boot returns false and changes
  only the evaluated flag and the cached result: nothing is read from or written to the
  namespace, the RTC cell is untouched and no timer is scheduled.
\<close>

theorem check_and_clear_nvs_not_ready:
  assumes "backend s = NVS" and "configured s" and "\<not> nvs_ready s" and "\<not> evaluated s"
  shows "check_and_clear cfg window_s s = (False, s\<lparr>evaluated := True, cached_result := False\<rparr>)"
  using assms by (simp add: check_and_clear_unfold configure_on_demand_def)

theorem check_and_clear_nvs_not_ready_witness:
  "backend (snd (configure (boot_state NVS kDrdMagic armed_store ESP_RST_EXT (Some demo_sha)
      [False, True]))) = NVS \<and>
   fst (check_and_clear demo_cfg 10
     (snd (configure (boot_state NVS kDrdMagic armed_store ESP_RST_EXT (Some demo_sha)
        [False, True])))) = False \<and>
   trace (snd (check_and_clear demo_cfg 10
     (snd (configure (boot_state NVS kDrdMagic armed_store ESP_RST_EXT (Some demo_sha)
        [False, True]))))) = [NvsFlashInit ESP_OK, NvsOpen ESP_FAIL]"
proof -
  let ?s = "snd (configure (boot_state NVS kDrdMagic armed_store ESP_RST_EXT (Some demo_sha)
      [False, True]))"
  have h: "backend ?s = NVS" "configured ?s" "\<not> nvs_ready ?s" "\<not> evaluated ?s"
    by (simp_all add: run_defs boot_state_def)
  have t: "trace ?s = [NvsFlashInit ESP_OK, NvsOpen ESP_FAIL]"
    by (simp add: run_defs boot_state_def)
  show ?thesis
    using check_and_clear_nvs_not_ready [OF h, of demo_cfg 10] h(1) t by simp
qed

subsection \<open>The status of configure\<close>

text \<open>
  C6, as the code has it: \<^verbatim>\<open>configure\<close> returns the status of
  \<^verbatim>\<open>nvs_open\<close>. It is \<open>ESP_OK\<close> when the detector was configured before, on
  the RTC backend, and whenever the open succeeds, even if \<^verbatim>\<open>nvs_flash_init\<close>
  failed; it is the error of the open otherwise. In every case the detector is
  configured afterwards, the store is ready exactly when the status is \<open>ESP_OK\<close>,
  and a repeated call returns \<open>ESP_OK\<close>.
\<close>

theorem configure_status:
  "fst (configure s) =
     (if \<not> configured s \<and> backend s = NVS \<and> fault_at 1 (faults s) then ESP_FAIL else ESP_OK) \<and>
   configured (snd (configure s)) \<and>
   (\<not> configured s \<and> backend s = NVS \<longrightarrow>
      nvs_ready (snd (configure s)) = (fst (configure s) = ESP_OK)) \<and>
   fst (configure (snd (configure s))) = ESP_OK"
proof -
  have open_status: "fst (nvs_open (snd (safe_nvs_init s))) =
      (if fault_at 1 (faults s) then ESP_FAIL else ESP_OK)"
    by (simp add: safe_nvs_init_def status_prims faults_prims fault_at_tl)
  have c: "configured (snd (configure s))"
    by (simp add: configure_def Let_def split_beta)
  have again: "fst (configure u) = ESP_OK" if "configured u" for u
    using that by (simp add: configure_def)
  have status: "fst (configure s) =
     (if \<not> configured s \<and> backend s = NVS \<and> fault_at 1 (faults s) then ESP_FAIL else ESP_OK)"
    using open_status by (simp add: configure_def Let_def split_beta)
  have ready: "nvs_ready (snd (configure s)) = (fst (configure s) = ESP_OK)"
    if "\<not> configured s" and "backend s = NVS"
    using that by (simp add: configure_def Let_def split_beta)
  show ?thesis
    using c again [OF c] status ready by blast
qed

theorem configure_status_witness:
  "fst (configure (boot_state NVS 0 Map.empty ESP_RST_POWERON None [True, False])) = ESP_OK \<and>
   nvs_ready (snd (configure (boot_state NVS 0 Map.empty ESP_RST_POWERON None [True, False]))) \<and>
   fst (configure (boot_state NVS 0 Map.empty ESP_RST_POWERON None [False, True])) = ESP_FAIL \<and>
   \<not> nvs_ready (snd (configure (boot_state NVS 0 Map.empty ESP_RST_POWERON None [False, True])))"
  using configure_status [of "boot_state NVS 0 Map.empty ESP_RST_POWERON None [True, False]"]
    configure_status [of "boot_state NVS 0 Map.empty ESP_RST_POWERON None [False, True]"]
  by (simp add: boot_state_def fault_at_def)

text \<open>
  A failing open reaches the caller: \<^verbatim>\<open>configure\<close> does not return success.
\<close>

theorem configure_open_failure:
  "fst (configure (boot_state NVS 0 Map.empty ESP_RST_POWERON None [False, True])) \<noteq> ESP_OK"
  by (simp add: configure_def boot_state_def safe_nvs_init_def nvs_flash_init_def nvs_open_def
      next_fault_def emit_def)

subsection \<open>Failures while arming\<close>

text \<open>
  C7: in the normal (arming) branch of the NVS decision the result is false whatever the
  driver does. When the marker write fails nothing else is called; when the write
  succeeds and the commit fails nothing else is called; in both cases the disarm timer
  is as it was. Only after both succeeded is \<^verbatim>\<open>schedule_disarm\<close> reached, with
  the marker durable.
\<close>

theorem nvs_normal_branch_failure:
  assumes "\<not> tooling_reset" and "\<not> firmware_dirty" and "stored_magic \<noteq> kDrdMagic"
  shows "fst (nvs_decide cfg tooling_reset firmware_dirty stored_magic w s) = False \<and>
    snd (nvs_decide cfg tooling_reset firmware_dirty stored_magic w s) =
      (nvs_normal_branch w s)\<lparr>cached_result := False\<rparr> \<and>
    (fault_at 0 (faults s) \<longrightarrow>
       trace (nvs_normal_branch w s) = trace s @ [NvsSet kKeyMagic (U32 kDrdMagic) ESP_FAIL] \<and>
       disarm_timer (nvs_normal_branch w s) = disarm_timer s) \<and>
    (\<not> fault_at 0 (faults s) \<and> fault_at 1 (faults s) \<longrightarrow>
       trace (nvs_normal_branch w s) =
         trace s @ [NvsSet kKeyMagic (U32 kDrdMagic) ESP_OK, NvsCommit ESP_FAIL] \<and>
       disarm_timer (nvs_normal_branch w s) = disarm_timer s) \<and>
    (\<not> fault_at 0 (faults s) \<and> \<not> fault_at 1 (faults s) \<longrightarrow>
       (\<exists>evs. trace (nvs_normal_branch w s) =
           trace s @ [NvsSet kKeyMagic (U32 kDrdMagic) ESP_OK, NvsCommit ESP_OK] @ evs \<and>
           evs \<noteq> [] \<and> list_all is_timer_event evs) \<and>
       nvs_durable (nvs_normal_branch w s) kKeyMagic = Some (U32 kDrdMagic) \<and>
       disarm_timer (nvs_normal_branch w s) =
         (if fault_at 2 (faults s) \<or> fault_at 3 (faults s) then None
          else Some ((ucast w :: 64 word) * 1000000)))"
proof (intro conjI impI)
  show "fst (nvs_decide cfg tooling_reset firmware_dirty stored_magic w s) = False"
    using assms by (simp add: nvs_decide_def Let_def)
  show "snd (nvs_decide cfg tooling_reset firmware_dirty stored_magic w s) =
      (nvs_normal_branch w s)\<lparr>cached_result := False\<rparr>"
    using assms by (simp add: nvs_decide_def Let_def)
next
  assume f: "fault_at 0 (faults s)"
  then show "trace (nvs_normal_branch w s) =
      trace s @ [NvsSet kKeyMagic (U32 kDrdMagic) ESP_FAIL]"
    by (simp add: nvs_normal_branch_def nvs_set_u32_def Let_def split_beta status_prims trace_prims)
  from f show "disarm_timer (nvs_normal_branch w s) = disarm_timer s"
    by (simp add: nvs_normal_branch_def nvs_set_u32_def Let_def split_beta status_prims
        aux_fields(2) [OF aux_prims(7)])
next
  assume f: "\<not> fault_at 0 (faults s) \<and> fault_at 1 (faults s)"
  then show "trace (nvs_normal_branch w s) =
      trace s @ [NvsSet kKeyMagic (U32 kDrdMagic) ESP_OK, NvsCommit ESP_FAIL]"
    by (simp add: nvs_normal_branch_def nvs_set_u32_def Let_def split_beta status_prims
        trace_prims faults_prims fault_at_tl)
  from f show "disarm_timer (nvs_normal_branch w s) = disarm_timer s"
    by (simp add: nvs_normal_branch_def nvs_set_u32_def Let_def split_beta status_prims
        faults_prims fault_at_tl aux_fields(2) [OF aux_prims(7)] aux_fields(2) [OF aux_prims(9)])
next
  assume f: "\<not> fault_at 0 (faults s) \<and> \<not> fault_at 1 (faults s)"
  let ?s2 = "snd (nvs_commit (snd (nvs_set kKeyMagic (U32 kDrdMagic) s)))"
  have b: "nvs_normal_branch w s = schedule_disarm w ?s2"
    using f by (simp add: nvs_normal_branch_def nvs_set_u32_def Let_def split_beta status_prims
        faults_prims fault_at_tl)
  have t: "trace ?s2 = trace s @ [NvsSet kKeyMagic (U32 kDrdMagic) ESP_OK, NvsCommit ESP_OK]"
    using f by (simp add: trace_prims status_prims faults_prims fault_at_tl)
  from trace_schedule_disarm [of w ?s2] t
  show "\<exists>evs. trace (nvs_normal_branch w s) =
           trace s @ [NvsSet kKeyMagic (U32 kDrdMagic) ESP_OK, NvsCommit ESP_OK] @ evs \<and>
           evs \<noteq> [] \<and> list_all is_timer_event evs"
    by (auto simp add: b)
  show "nvs_durable (nvs_normal_branch w s) kKeyMagic = Some (U32 kDrdMagic)"
    using f by (simp add: b durable_commit view_set status_prims faults_prims fault_at_tl)
  show "disarm_timer (nvs_normal_branch w s) =
         (if fault_at 2 (faults s) \<or> fault_at 3 (faults s) then None
          else Some ((ucast w :: 64 word) * 1000000))"
    by (simp add: b disarm_timer_schedule_disarm faults_prims fault_at_tl eval_nat_numeral)
qed

theorem nvs_normal_branch_failure_witness:
  "fst (check_and_clear demo_cfg 10 (boot_state NVS 0 clean_store ESP_RST_EXT (Some demo_sha)
      [False, False, False, False, False, False, False, False, True])) = False \<and>
   disarm_timer (snd (check_and_clear demo_cfg 10 (boot_state NVS 0 clean_store ESP_RST_EXT
      (Some demo_sha) [False, False, False, False, False, False, False, False, True]))) = None"
proof -
  let ?S = "boot_state NVS 0 clean_store ESP_RST_EXT (Some demo_sha)
      [False, False, False, False, False, False, False, False, True]"
  let ?T = "snd (nvs_read_magic (snd (nvs_read_dirty False (snd (snd (snd (nvs_identity_read
      (configure_on_demand ((?S)\<lparr>evaluated := True, cached_result := False\<rparr>)))))))))"
  have h: "\<not> False" "\<not> False" "(0 :: 32 word) \<noteq> kDrdMagic"
    by (simp_all add: kDrdMagic_def)
  have eq: "check_and_clear demo_cfg 10 ?S = nvs_decide demo_cfg False False 0 10 ?T"
    by (simp add: stage_defs run_defs concrete_defs clean_store_def split_beta)
  have f: "\<not> fault_at 0 (faults ?T)" "fault_at 1 (faults ?T)" "disarm_timer ?T = None"
    by (simp_all add: stage_defs run_defs concrete_defs clean_store_def split_beta)
  show ?thesis
    using nvs_normal_branch_failure [OF h, of demo_cfg 10 ?T] f by (simp add: eq)
qed


text \<open>
  C8: on an NVS detector whose store is ready the arm-timer callback writes
  \<open>fw_dirty = 0\<close>, then \<open>magic = MAGIC\<close>, then commits, then schedules the disarm
  timer for the stored \<open>arm_window_s\<close>. The first of the three driver calls that
  fails ends the callback: the later calls are not made and the disarm timer is as it
  was. After three successes the calls that follow are those of scheduling: stop and
  delete of a disarm timer that existed, \<^verbatim>\<open>esp_timer_create\<close>, and
  \<^verbatim>\<open>esp_timer_start_once\<close> with \<open>arm_window_s * 1000000\<close> microseconds.
\<close>

theorem arm_timer_cb_order:
  assumes "backend s = NVS" and "nvs_ready s"
  shows
    "(fault_at 0 (faults s) \<longrightarrow>
        trace (arm_timer_cb s) = trace s @ [NvsSet kKeyDirty (U8 0) ESP_FAIL] \<and>
        disarm_timer (arm_timer_cb s) = disarm_timer s) \<and>
     (\<not> fault_at 0 (faults s) \<and> fault_at 1 (faults s) \<longrightarrow>
        trace (arm_timer_cb s) =
          trace s @ [NvsSet kKeyDirty (U8 0) ESP_OK, NvsSet kKeyMagic (U32 kDrdMagic) ESP_FAIL] \<and>
        disarm_timer (arm_timer_cb s) = disarm_timer s) \<and>
     (\<not> fault_at 0 (faults s) \<and> \<not> fault_at 1 (faults s) \<and> fault_at 2 (faults s) \<longrightarrow>
        trace (arm_timer_cb s) =
          trace s @ [NvsSet kKeyDirty (U8 0) ESP_OK, NvsSet kKeyMagic (U32 kDrdMagic) ESP_OK,
                     NvsCommit ESP_FAIL] \<and>
        disarm_timer (arm_timer_cb s) = disarm_timer s) \<and>
     (\<not> fault_at 0 (faults s) \<and> \<not> fault_at 1 (faults s) \<and> \<not> fault_at 2 (faults s) \<longrightarrow>
        (\<exists>s3. arm_timer_cb s = schedule_disarm (arm_window_s s) s3 \<and>
           trace s3 =
             trace s @ [NvsSet kKeyDirty (U8 0) ESP_OK, NvsSet kKeyMagic (U32 kDrdMagic) ESP_OK,
                        NvsCommit ESP_OK] \<and>
           nvs_durable s3 kKeyDirty = Some (U8 0) \<and>
           nvs_durable s3 kKeyMagic = Some (U32 kDrdMagic)) \<and>
        trace (arm_timer_cb s) =
          trace s @
          [NvsSet kKeyDirty (U8 0) ESP_OK, NvsSet kKeyMagic (U32 kDrdMagic) ESP_OK,
           NvsCommit ESP_OK] @
          (if disarm_timer s = None then []
           else [TimerStop ''drd_disarm'', TimerDelete ''drd_disarm'']) @
          (if fault_at 3 (faults s) then [TimerCreate ''drd_disarm'' ESP_FAIL]
           else if fault_at 4 (faults s)
           then [TimerCreate ''drd_disarm'' ESP_OK,
                 TimerStartOnce ''drd_disarm'' ((ucast (arm_window_s s) :: 64 word) * 1000000)
                   ESP_FAIL,
                 TimerDelete ''drd_disarm'']
           else [TimerCreate ''drd_disarm'' ESP_OK,
                 TimerStartOnce ''drd_disarm'' ((ucast (arm_window_s s) :: 64 word) * 1000000)
                   ESP_OK]) \<and>
        disarm_timer (arm_timer_cb s) =
          (if fault_at 3 (faults s) \<or> fault_at 4 (faults s) then None
           else Some ((ucast (arm_window_s s) :: 64 word) * 1000000)))"
proof -
  let ?s0 = "s\<lparr>arm_timer := None\<rparr>"
  let ?s1 = "snd (nvs_set kKeyDirty (U8 0) ?s0)"
  let ?s2 = "snd (nvs_set kKeyMagic (U32 kDrdMagic) ?s1)"
  let ?s3 = "snd (nvs_commit ?s2)"
  have e1: "fst (nvs_set kKeyDirty (U8 0) ?s0) = (if fault_at 0 (faults s) then ESP_FAIL else ESP_OK)"
    by (simp add: status_prims)
  have e2: "fst (nvs_set kKeyMagic (U32 kDrdMagic) ?s1) =
      (if fault_at 1 (faults s) then ESP_FAIL else ESP_OK)"
    by (simp add: status_prims faults_prims fault_at_tl)
  have e3: "fst (nvs_commit ?s2) = (if fault_at 2 (faults s) then ESP_FAIL else ESP_OK)"
    by (simp add: status_prims faults_prims fault_at_tl eval_nat_numeral)
  have cb: "arm_timer_cb s =
      (if fault_at 0 (faults s) then ?s1
       else if fault_at 1 (faults s) then ?s2
       else if fault_at 2 (faults s) then ?s3
       else schedule_disarm (arm_window_s ?s3) ?s3)"
    using assms by (simp add: arm_timer_cb_def nvs_set_u8_def nvs_set_u32_def Let_def split_beta e1 e2 e3)
  have t1: "trace ?s1 = trace s @ [NvsSet kKeyDirty (U8 0) (fst (nvs_set kKeyDirty (U8 0) ?s0))]"
    by (simp add: trace_prims)
  have t2: "trace ?s2 = trace ?s1 @ [NvsSet kKeyMagic (U32 kDrdMagic) (fst (nvs_set kKeyMagic (U32 kDrdMagic) ?s1))]"
    by (simp add: trace_prims)
  have t3: "trace ?s3 = trace ?s2 @ [NvsCommit (fst (nvs_commit ?s2))]"
    by (simp add: trace_prims)
  have d1: "disarm_timer ?s1 = disarm_timer s"
    by (simp add: aux_fields(2) [OF aux_prims(7)])
  have d2: "disarm_timer ?s2 = disarm_timer s"
    by (simp add: aux_fields(2) [OF aux_prims(7)])
  have d3: "disarm_timer ?s3 = disarm_timer s"
    by (simp add: aux_fields(2) [OF aux_prims(9)] d2)
  have w3: "arm_window_s ?s3 = arm_window_s s"
    by (simp add: aux_fields(4) [OF aux_prims(9)] aux_fields(4) [OF aux_prims(7)])
  have f3: "faults ?s3 = tl (tl (tl (faults s)))"
    by (simp add: faults_prims)
  have dur: "nvs_durable ?s3 kKeyDirty = Some (U8 0) \<and> nvs_durable ?s3 kKeyMagic = Some (U32 kDrdMagic)"
    if "\<not> fault_at 0 (faults s)" "\<not> fault_at 1 (faults s)" "\<not> fault_at 2 (faults s)"
    using that by (simp add: durable_commit view_set e1 e2 e3)
  show ?thesis
  proof (intro conjI impI)
    assume "\<not> fault_at 0 (faults s) \<and> \<not> fault_at 1 (faults s) \<and> \<not> fault_at 2 (faults s)"
    then have nf: "\<not> fault_at 0 (faults s)" "\<not> fault_at 1 (faults s)" "\<not> fault_at 2 (faults s)"
      by simp_all
    have "arm_timer_cb s = schedule_disarm (arm_window_s s) ?s3 \<and>
           trace ?s3 =
             trace s @ [NvsSet kKeyDirty (U8 0) ESP_OK, NvsSet kKeyMagic (U32 kDrdMagic) ESP_OK,
                        NvsCommit ESP_OK] \<and>
           nvs_durable ?s3 kKeyDirty = Some (U8 0) \<and>
           nvs_durable ?s3 kKeyMagic = Some (U32 kDrdMagic)"
      using nf dur [OF nf] by (simp add: cb w3 t3 t2 t1 e1 e2 e3)
    then show "\<exists>s3. arm_timer_cb s = schedule_disarm (arm_window_s s) s3 \<and>
           trace s3 =
             trace s @ [NvsSet kKeyDirty (U8 0) ESP_OK, NvsSet kKeyMagic (U32 kDrdMagic) ESP_OK,
                        NvsCommit ESP_OK] \<and>
           nvs_durable s3 kKeyDirty = Some (U8 0) \<and>
           nvs_durable s3 kKeyMagic = Some (U32 kDrdMagic)"
      by blast
    show "trace (arm_timer_cb s) =
          trace s @
          [NvsSet kKeyDirty (U8 0) ESP_OK, NvsSet kKeyMagic (U32 kDrdMagic) ESP_OK,
           NvsCommit ESP_OK] @
          (if disarm_timer s = None then []
           else [TimerStop ''drd_disarm'', TimerDelete ''drd_disarm'']) @
          (if fault_at 3 (faults s) then [TimerCreate ''drd_disarm'' ESP_FAIL]
           else if fault_at 4 (faults s)
           then [TimerCreate ''drd_disarm'' ESP_OK,
                 TimerStartOnce ''drd_disarm'' ((ucast (arm_window_s s) :: 64 word) * 1000000)
                   ESP_FAIL,
                 TimerDelete ''drd_disarm'']
           else [TimerCreate ''drd_disarm'' ESP_OK,
                 TimerStartOnce ''drd_disarm'' ((ucast (arm_window_s s) :: 64 word) * 1000000)
                   ESP_OK])"
      using nf
      by (simp add: cb w3 trace_schedule_disarm_exact d3 f3 fault_at_tl eval_nat_numeral
          t3 t2 t1 e1 e2 e3)
    show "disarm_timer (arm_timer_cb s) =
          (if fault_at 3 (faults s) \<or> fault_at 4 (faults s) then None
           else Some ((ucast (arm_window_s s) :: 64 word) * 1000000))"
      using nf by (simp add: cb w3 disarm_timer_schedule_disarm f3 fault_at_tl eval_nat_numeral)
  qed (simp_all add: cb t3 t2 t1 e1 e2 e3 d1 d2 d3)
qed

theorem arm_timer_cb_order_witness:
  "trace (arm_timer_cb (ready_state dirty_store [False, False, True])) =
     [NvsSet kKeyDirty (U8 0) ESP_OK, NvsSet kKeyMagic (U32 kDrdMagic) ESP_OK, NvsCommit ESP_FAIL] \<and>
   disarm_timer (arm_timer_cb (ready_state dirty_store [False, False, True])) = None \<and>
   trace (arm_timer_cb ((ready_state dirty_store [])\<lparr>arm_window_s := 10\<rparr>)) =
     [NvsSet kKeyDirty (U8 0) ESP_OK, NvsSet kKeyMagic (U32 kDrdMagic) ESP_OK, NvsCommit ESP_OK,
      TimerCreate ''drd_disarm'' ESP_OK, TimerStartOnce ''drd_disarm'' 10000000 ESP_OK] \<and>
   disarm_timer (arm_timer_cb ((ready_state dirty_store [])\<lparr>arm_window_s := 10\<rparr>)) =
     Some 10000000"
proof -
  have h: "backend (ready_state dirty_store fs) = NVS" "nvs_ready (ready_state dirty_store fs)" for fs
    by (simp_all add: ready_state_def boot_state_def)
  have h': "backend ((ready_state dirty_store [])\<lparr>arm_window_s := 10\<rparr>) = NVS"
    "nvs_ready ((ready_state dirty_store [])\<lparr>arm_window_s := 10\<rparr>)"
    by (simp_all add: ready_state_def boot_state_def)
  show ?thesis
    using arm_timer_cb_order [OF h, of "[False, False, True]"] arm_timer_cb_order [OF h']
    by (simp add: ready_state_def boot_state_def fault_at_def)
qed


subsection \<open>Detection and the marker\<close>

text \<open>
  C1, as the code has it: when the first \<^verbatim>\<open>check_and_clear\<close> of a boot returns
  true, then on the RTC backend the RTC cell is zero on return; on the NVS backend the
  disarm timer handle is cleared and the last two driver calls were the erase of
  \<open>magic\<close> and then the commit. The marker is absent from the namespace if that
  erase did not fail, and absent from durable storage if the commit succeeded as well.
\<close>

theorem check_and_clear_true_clears_marker:
  assumes "\<not> evaluated s" and "fst (check_and_clear cfg w s)"
  shows "(backend (snd (check_and_clear cfg w s)) = RTC \<longrightarrow>
            s_rtc_magic (snd (check_and_clear cfg w s)) = 0) \<and>
         (backend (snd (check_and_clear cfg w s)) = NVS \<longrightarrow>
            disarm_timer (snd (check_and_clear cfg w s)) = None \<and>
            (\<exists>pre e1 e2.
               trace (snd (check_and_clear cfg w s)) =
                 pre @ [NvsErase kKeyMagic e1, NvsCommit e2] \<and>
               (e1 \<noteq> ESP_FAIL \<longrightarrow> nvs_view (snd (check_and_clear cfg w s)) kKeyMagic = None) \<and>
               (e1 \<noteq> ESP_FAIL \<and> e2 = ESP_OK \<longrightarrow>
                  nvs_durable (snd (check_and_clear cfg w s)) kKeyMagic = None)))"
proof -
  let ?s2 = "configure_on_demand (s\<lparr>evaluated := True, cached_result := False\<rparr>)"
  let ?tr = "is_tooling_reset cfg (reset_reason s)"
  show ?thesis
  proof (cases "backend ?s2")
    case RTC
    then have c: "check_and_clear cfg w s = check_rtc ?tr w ?s2"
      using assms(1) by (simp add: check_and_clear_unfold Let_def)
    show ?thesis
      using assms(2) RTC check_rtc_true [of ?tr w ?s2] by (simp add: c)
  next
    case NVS
    then have r: "nvs_ready ?s2"
      using assms by (auto simp add: check_and_clear_unfold Let_def split: if_splits)
    with NVS have c: "check_and_clear cfg w s = check_nvs cfg ?tr w ?s2"
      using assms(1) by (simp add: check_and_clear_unfold Let_def)
    from assms(2) obtain t where
      t: "snd (check_nvs cfg ?tr w ?s2) = (nvs_detection_branch t)\<lparr>cached_result := True\<rparr>"
      using check_nvs_true [of cfg ?tr w ?s2] by (auto simp add: c)
    have b: "backend (snd (check_nvs cfg ?tr w ?s2)) = NVS"
      using NVS by (simp add: core_fields(1) [OF core_check_nvs])
    show ?thesis
      using detection_branch_effect [of t] b by (simp add: c) (simp add: t)
  qed
qed

theorem check_and_clear_true_clears_marker_witness:
  "\<not> evaluated (boot_state NVS 0 armed_store ESP_RST_EXT (Some demo_sha) []) \<and>
   fst (check_and_clear demo_cfg 10 (boot_state NVS 0 armed_store ESP_RST_EXT (Some demo_sha) [])) \<and>
   backend (snd (check_and_clear demo_cfg 10
      (boot_state NVS 0 armed_store ESP_RST_EXT (Some demo_sha) []))) = NVS \<and>
   disarm_timer (snd (check_and_clear demo_cfg 10
      (boot_state NVS 0 armed_store ESP_RST_EXT (Some demo_sha) []))) = None"
proof -
  let ?s = "boot_state NVS 0 armed_store ESP_RST_EXT (Some demo_sha) []"
  have h1: "\<not> evaluated ?s"
    by (simp add: boot_state_def)
  have h2: "fst (check_and_clear demo_cfg 10 ?s)"
    by (simp add: check_and_clear_unfold check_nvs_unfold nvs_identity_read_def nvs_read_dirty_def
        nvs_read_magic_def nvs_decide_def get_current_app_sha256_def run_defs concrete_defs
        split_beta)
  have b: "backend (snd (check_and_clear demo_cfg 10 ?s)) = NVS"
    by (simp add: check_and_clear_unfold configure_on_demand_def configure_def
        safe_nvs_init_def nvs_flash_init_def nvs_open_def next_fault_def emit_def boot_state_def
        core_fields(1) [OF core_check_nvs] split_beta)
  show ?thesis
    using check_and_clear_true_clears_marker [OF h1 h2] h1 h2 b by simp
qed

text \<open>
  The result does not wait for the erase: when \<^verbatim>\<open>nvs_erase_key\<close> fails in the
  detection branch, \<^verbatim>\<open>check_and_clear\<close> still returns true and the marker is
  still stored.
\<close>

theorem check_and_clear_true_marker_left:
  "fst (check_and_clear demo_cfg 10 (boot_state NVS 0 armed_store ESP_RST_EXT (Some demo_sha)
      [False, False, False, False, False, False, False, True])) \<and>
   nvs_view (snd (check_and_clear demo_cfg 10 (boot_state NVS 0 armed_store ESP_RST_EXT
      (Some demo_sha) [False, False, False, False, False, False, False, True]))) kKeyMagic =
     Some (U32 kDrdMagic) \<and>
   nvs_durable (snd (check_and_clear demo_cfg 10 (boot_state NVS 0 armed_store ESP_RST_EXT
      (Some demo_sha) [False, False, False, False, False, False, False, True]))) kKeyMagic =
     Some (U32 kDrdMagic)"
  by (simp add: check_and_clear_unfold check_nvs_unfold nvs_identity_read_def nvs_read_dirty_def
      nvs_read_magic_def nvs_decide_def nvs_detection_branch_def get_current_app_sha256_def
      run_defs concrete_defs split_beta)

subsection \<open>The dirty flag\<close>

text \<open>
  C3, as the code has it: on the NVS backend, if \<open>fw_dirty\<close> holds a nonzero byte
  at the entry of the boot's first \<^verbatim>\<open>check_and_clear\<close>, the call returns false
  whatever the marker is, provided the detector decides on the NVS backend: it was
  configured before, or the namespace opens when \<^verbatim>\<open>check_and_clear\<close> configures
  it. Nothing is assumed about the marker, the reset reason, the stored identity or
  the other failures of the driver.
\<close>


theorem check_and_clear_dirty:
  assumes "\<not> evaluated s" and "backend s = NVS"
    and "configured s \<or> \<not> fault_at 1 (faults s)"
    and "nvs_view s kKeyDirty = Some (U8 v)" and "v \<noteq> 0"
  shows "fst (check_and_clear cfg w s) = False"
proof -
  let ?s1 = "s\<lparr>evaluated := True, cached_result := False\<rparr>"
  let ?s2 = "configure_on_demand ?s1"
  have b: "backend ?s2 = NVS"
    using assms(2,3) by (auto simp add: backend_configure_on_demand)
  have "dirty_flag_set ?s2"
    using assms(4,5) by (simp add: dirty_flag_set_def)
  then have "\<not> fst (check_nvs cfg (is_tooling_reset cfg (reset_reason ?s1)) w ?s2)"
    by (rule check_nvs_dirty)
  then show ?thesis
    using assms(1) b by (simp add: check_and_clear_unfold Let_def)
qed

theorem check_and_clear_dirty_witness:
  "nvs_view (boot_state NVS 0 dirty_store ESP_RST_EXT (Some demo_sha) []) kKeyMagic =
     Some (U32 kDrdMagic) \<and>
   nvs_view (boot_state NVS 0 dirty_store ESP_RST_EXT (Some demo_sha) []) kKeyDirty =
     Some (U8 1) \<and>
   fst (check_and_clear demo_cfg 10 (boot_state NVS 0 dirty_store ESP_RST_EXT (Some demo_sha) []))
     = False"
proof -
  let ?s = "boot_state NVS 0 dirty_store ESP_RST_EXT (Some demo_sha) []"
  have h: "\<not> evaluated ?s" "backend ?s = NVS" "configured ?s \<or> \<not> fault_at 1 (faults ?s)"
    "nvs_view ?s kKeyDirty = Some (U8 1)" "(1 :: 8 word) \<noteq> 0"
    by (simp_all add: concrete_defs)
  have m: "nvs_view ?s kKeyMagic = Some (U32 kDrdMagic)"
    by (simp add: concrete_defs)
  show ?thesis
    using check_and_clear_dirty [OF h, of demo_cfg 10] h(4) m by simp
qed

text \<open>
  When the open fails inside \<^verbatim>\<open>check_and_clear\<close> the detector decides on the RTC
  cell, where the dirty flag is not consulted: with \<open>fw_dirty = 1\<close> stored and the
  RTC cell armed the call returns true.
\<close>

theorem check_and_clear_dirty_fallback:
  "backend (boot_state NVS kDrdMagic dirty_store ESP_RST_EXT (Some demo_sha) [False, True]) = NVS \<and>
   nvs_view (boot_state NVS kDrdMagic dirty_store ESP_RST_EXT (Some demo_sha) [False, True])
     kKeyDirty = Some (U8 1) \<and>
   nvs_durable (boot_state NVS kDrdMagic dirty_store ESP_RST_EXT (Some demo_sha) [False, True])
     kKeyDirty = Some (U8 1) \<and>
   fst (check_and_clear demo_cfg 10
     (boot_state NVS kDrdMagic dirty_store ESP_RST_EXT (Some demo_sha) [False, True])) = True"
  by (simp add: check_and_clear_unfold check_rtc_def run_defs concrete_defs split_beta)

subsection \<open>Falling back to the RTC backend\<close>

text \<open>
  C5, as the code has it: when the NVS backend is selected, the detector was not
  configured before, and the open of the namespace fails inside the first
  \<^verbatim>\<open>check_and_clear\<close>, that call switches the detector to the RTC backend and
  follows the decision algorithm of the volatile backend, without touching the
  namespace. A detector on the RTC backend stays on it through every later operation.
\<close>

theorem check_and_clear_degrades:
  assumes "backend s = NVS" and "\<not> configured s" and "\<not> evaluated s"
    and "fst (nvs_open (snd (safe_nvs_init s))) \<noteq> ESP_OK"
  shows "check_and_clear cfg w s =
           (let s1 = (snd (configure (s\<lparr>evaluated := True, cached_result := False\<rparr>)))
                       \<lparr>backend := RTC\<rparr>;
                (r, s2) = volatile_decision_spec (is_tooling_reset cfg (reset_reason s)) w s1
            in (r, s2\<lparr>cached_result := r\<rparr>)) \<and>
         backend (snd (check_and_clear cfg w s)) = RTC \<and>
         nvs_view (snd (check_and_clear cfg w s)) = nvs_view s \<and>
         nvs_durable (snd (check_and_clear cfg w s)) = nvs_durable s \<and>
         (backend t = RTC \<longrightarrow>
            backend (snd (check_and_clear cfg w' t)) = RTC \<and> backend (clear_flag t) = RTC \<and>
            backend (snd (configure t)) = RTC \<and> backend (disarm_timer_cb t) = RTC \<and>
            backend (arm_timer_cb t) = RTC)"
proof -
  let ?s1 = "s\<lparr>evaluated := True, cached_result := False\<rparr>"
  let ?s2 = "(snd (configure ?s1))\<lparr>backend := RTC\<rparr>"
  let ?tr = "is_tooling_reset cfg (reset_reason s)"
  from assms(4) have f: "fault_at 1 (faults s)"
    by (simp add: safe_nvs_init_def status_prims faults_prims fault_at_tl split: if_splits)
  have c: "configure_on_demand ?s1 = ?s2"
    using assms(1,2) f by (simp add: configure_on_demand_def configure_result_by_fault split_beta)
  have r: "check_and_clear cfg w s = check_rtc ?tr w ?s2"
    using assms(3) by (simp add: check_and_clear_unfold c Let_def)
  have e: "check_rtc ?tr w ?s2 =
      (let (r, s2) = volatile_decision_spec ?tr w ?s2 in (r, s2\<lparr>cached_result := r\<rparr>))"
    by (simp add: check_rtc_def volatile_decision_spec_def Let_def)
  have "check_and_clear cfg w s =
      (let (r, s2) = volatile_decision_spec ?tr w ?s2 in (r, s2\<lparr>cached_result := r\<rparr>))"
    using r e by simp
  moreover have "backend (snd (check_and_clear cfg w s)) = RTC"
    by (simp add: r)
  moreover have "nvs_view (snd (check_and_clear cfg w s)) = nvs_view s"
    by (simp add: r)
  moreover have "nvs_durable (snd (check_and_clear cfg w s)) = nvs_durable s"
    by (simp add: r)
  ultimately show ?thesis
    using rtc_stays [of t] by (simp add: Let_def)
qed

theorem check_and_clear_degrades_witness:
  "fst (check_and_clear demo_cfg 10
     (boot_state NVS kDrdMagic armed_store ESP_RST_EXT (Some demo_sha) [False, True])) = True \<and>
   backend (snd (check_and_clear demo_cfg 10
     (boot_state NVS kDrdMagic armed_store ESP_RST_EXT (Some demo_sha) [False, True]))) = RTC \<and>
   s_rtc_magic (snd (check_and_clear demo_cfg 10
     (boot_state NVS kDrdMagic armed_store ESP_RST_EXT (Some demo_sha) [False, True]))) = 0"
proof -
  let ?s = "boot_state NVS kDrdMagic armed_store ESP_RST_EXT (Some demo_sha) [False, True]"
  have h: "backend ?s = NVS" "\<not> configured ?s" "\<not> evaluated ?s"
    "fst (nvs_open (snd (safe_nvs_init ?s))) \<noteq> ESP_OK"
    by (simp_all add: run_defs boot_state_def)
  show ?thesis
    using check_and_clear_degrades [OF h, of demo_cfg 10]
    by (simp add: volatile_decision_spec_def run_defs concrete_defs split_beta)
qed

text \<open>
  There is no fallback when the host called \<^verbatim>\<open>configure\<close> itself and the open
  failed: the backend stays NVS, \<^verbatim>\<open>check_and_clear\<close> returns false and leaves
  the armed RTC cell alone, where the volatile algorithm would report a double reset.
\<close>

theorem explicit_configure_failure_no_fallback:
  "fst (configure (boot_state NVS kDrdMagic armed_store ESP_RST_EXT (Some demo_sha)
      [False, True])) \<noteq> ESP_OK \<and>
   fst (check_and_clear demo_cfg 10
     (snd (configure (boot_state NVS kDrdMagic armed_store ESP_RST_EXT (Some demo_sha)
        [False, True])))) = False \<and>
   backend (snd (check_and_clear demo_cfg 10
     (snd (configure (boot_state NVS kDrdMagic armed_store ESP_RST_EXT (Some demo_sha)
        [False, True]))))) = NVS \<and>
   s_rtc_magic (snd (check_and_clear demo_cfg 10
     (snd (configure (boot_state NVS kDrdMagic armed_store ESP_RST_EXT (Some demo_sha)
        [False, True]))))) = kDrdMagic \<and>
   fst (volatile_decision_spec (is_tooling_reset demo_cfg ESP_RST_EXT) 10
     (snd (configure (boot_state NVS kDrdMagic armed_store ESP_RST_EXT (Some demo_sha)
        [False, True])))) = True"
  by (simp add: check_and_clear_unfold volatile_decision_spec_def run_defs concrete_defs split_beta)

subsection \<open>clear_flag\<close>

text \<open>
  C9, as the code has it: on the NVS backend \<^verbatim>\<open>clear_flag\<close> does nothing at all
  while the namespace is not open. With the namespace open it erases \<open>magic\<close>,
  \<open>last_boot_us\<close>, \<open>fw_dirty\<close>, \<open>first_boot\<close>, \<open>app_sha256\<close> and
  \<open>app_hash\<close> in that order and then commits. Each of the six keys whose erase did
  not fail is absent afterwards, no other key is touched, a commit that succeeds makes
  the namespace durable as it then is, and when no driver call fails all six keys are
  absent from the namespace and from durable storage.
\<close>

theorem clear_flag_erases:
  assumes "backend s = NVS"
  shows "(\<not> nvs_ready s \<longrightarrow> clear_flag s = s) \<and>
         (nvs_ready s \<longrightarrow>
            (\<exists>e0 e1 e2 e3 e4 e5 ec.
               trace (clear_flag s) =
                 trace s @
                 [NvsErase ''magic'' e0, NvsErase ''last_boot_us'' e1, NvsErase ''fw_dirty'' e2,
                  NvsErase ''first_boot'' e3, NvsErase ''app_sha256'' e4,
                  NvsErase ''app_hash'' e5, NvsCommit ec] \<and>
               (e0 = ESP_FAIL) = fault_at 0 (faults s) \<and>
               (e1 = ESP_FAIL) = fault_at 1 (faults s) \<and>
               (e2 = ESP_FAIL) = fault_at 2 (faults s) \<and>
               (e3 = ESP_FAIL) = fault_at 3 (faults s) \<and>
               (e4 = ESP_FAIL) = fault_at 4 (faults s) \<and>
               (e5 = ESP_FAIL) = fault_at 5 (faults s) \<and>
               (ec = ESP_OK) = (\<not> fault_at 6 (faults s))) \<and>
            (\<not> fault_at 0 (faults s) \<longrightarrow> nvs_view (clear_flag s) ''magic'' = None) \<and>
            (\<not> fault_at 1 (faults s) \<longrightarrow> nvs_view (clear_flag s) ''last_boot_us'' = None) \<and>
            (\<not> fault_at 2 (faults s) \<longrightarrow> nvs_view (clear_flag s) ''fw_dirty'' = None) \<and>
            (\<not> fault_at 3 (faults s) \<longrightarrow> nvs_view (clear_flag s) ''first_boot'' = None) \<and>
            (\<not> fault_at 4 (faults s) \<longrightarrow> nvs_view (clear_flag s) ''app_sha256'' = None) \<and>
            (\<not> fault_at 5 (faults s) \<longrightarrow> nvs_view (clear_flag s) ''app_hash'' = None) \<and>
            (\<forall>k. k \<notin> {''magic'', ''last_boot_us'', ''fw_dirty'', ''first_boot'',
                        ''app_sha256'', ''app_hash''} \<longrightarrow>
                 nvs_view (clear_flag s) k = nvs_view s k) \<and>
            (\<not> fault_at 6 (faults s) \<longrightarrow> nvs_durable (clear_flag s) = nvs_view (clear_flag s)) \<and>
            (faults s = [] \<longrightarrow>
               (\<forall>k\<in>{''magic'', ''last_boot_us'', ''fw_dirty'', ''first_boot'',
                       ''app_sha256'', ''app_hash''}.
                  nvs_view (clear_flag s) k = None \<and> nvs_durable (clear_flag s) k = None)))"
proof (intro conjI impI)
  show "clear_flag s = s" if "\<not> nvs_ready s"
    using assms that by (simp add: clear_flag_def)
next
  assume r: "nvs_ready s"
  let ?s1 = "erase_keys clear_flag_keys s"
  have cf: "clear_flag s = snd (nvs_commit ?s1)"
    using assms r by (simp add: clear_flag_def)
  have n: "length clear_flag_keys = 6"
    by (simp add: clear_flag_keys_def)
  have ec: "(fst (nvs_commit ?s1) = ESP_OK) = (\<not> fault_at 6 (faults s))"
    by (simp add: status_prims faults_erase_keys fault_at_drop n)
  obtain es where es: "length es = length clear_flag_keys"
    "trace ?s1 = trace s @ map (\<lambda>(k, e). NvsErase k e) (zip clear_flag_keys es)"
    "\<forall>i<length clear_flag_keys. (es ! i = ESP_FAIL) = fault_at i (faults s)"
    using trace_erase_keys by blast
  from es(1) n have "length es = 6"
    by simp
  then obtain e0 e1 e2 e3 e4 e5 where l: "es = [e0, e1, e2, e3, e4, e5]"
    by (rule list_of_length_six)
  have st: "(es ! i = ESP_FAIL) = fault_at i (faults s)" if "i < 6" for i
    using es(3) that n by simp
  have f: "(e0 = ESP_FAIL) = fault_at 0 (faults s)" "(e1 = ESP_FAIL) = fault_at 1 (faults s)"
    "(e2 = ESP_FAIL) = fault_at 2 (faults s)" "(e3 = ESP_FAIL) = fault_at 3 (faults s)"
    "(e4 = ESP_FAIL) = fault_at 4 (faults s)" "(e5 = ESP_FAIL) = fault_at 5 (faults s)"
    using st [of 0] st [of 1] st [of 2] st [of 3] st [of 4] st [of 5] by (simp_all add: l)
  have tr: "trace (clear_flag s) =
      trace s @
      [NvsErase ''magic'' e0, NvsErase ''last_boot_us'' e1, NvsErase ''fw_dirty'' e2,
       NvsErase ''first_boot'' e3, NvsErase ''app_sha256'' e4, NvsErase ''app_hash'' e5,
       NvsCommit (fst (nvs_commit ?s1))]"
    unfolding cf by (simp add: trace_prims es(2)) (simp add: l clear_flag_keys_literal)
  from tr f ec show "\<exists>e0 e1 e2 e3 e4 e5 ec.
               trace (clear_flag s) =
                 trace s @
                 [NvsErase ''magic'' e0, NvsErase ''last_boot_us'' e1, NvsErase ''fw_dirty'' e2,
                  NvsErase ''first_boot'' e3, NvsErase ''app_sha256'' e4,
                  NvsErase ''app_hash'' e5, NvsCommit ec] \<and>
               (e0 = ESP_FAIL) = fault_at 0 (faults s) \<and>
               (e1 = ESP_FAIL) = fault_at 1 (faults s) \<and>
               (e2 = ESP_FAIL) = fault_at 2 (faults s) \<and>
               (e3 = ESP_FAIL) = fault_at 3 (faults s) \<and>
               (e4 = ESP_FAIL) = fault_at 4 (faults s) \<and>
               (e5 = ESP_FAIL) = fault_at 5 (faults s) \<and>
               (ec = ESP_OK) = (\<not> fault_at 6 (faults s))"
    by blast
  have v: "nvs_view (clear_flag s) (clear_flag_keys ! i) = None"
    if "i < 6" "\<not> fault_at i (faults s)" for i
    using that n by (simp add: cf view_erase_keys)
  show m0: "nvs_view (clear_flag s) ''magic'' = None" if "\<not> fault_at 0 (faults s)"
    using v [of 0] that by (simp add: clear_flag_keys_literal)
  show m1: "nvs_view (clear_flag s) ''last_boot_us'' = None" if "\<not> fault_at 1 (faults s)"
    using v [of 1] that by (simp add: clear_flag_keys_literal)
  show m2: "nvs_view (clear_flag s) ''fw_dirty'' = None" if "\<not> fault_at 2 (faults s)"
    using v [of 2] that by (simp add: clear_flag_keys_literal)
  show m3: "nvs_view (clear_flag s) ''first_boot'' = None" if "\<not> fault_at 3 (faults s)"
    using v [of 3] that by (simp add: clear_flag_keys_literal)
  show m4: "nvs_view (clear_flag s) ''app_sha256'' = None" if "\<not> fault_at 4 (faults s)"
    using v [of 4] that by (simp add: clear_flag_keys_literal)
  show m5: "nvs_view (clear_flag s) ''app_hash'' = None" if "\<not> fault_at 5 (faults s)"
    using v [of 5] that by (simp add: clear_flag_keys_literal)
  show "\<forall>k. k \<notin> {''magic'', ''last_boot_us'', ''fw_dirty'', ''first_boot'',
                        ''app_sha256'', ''app_hash''} \<longrightarrow>
                 nvs_view (clear_flag s) k = nvs_view s k"
  proof (intro allI impI)
    fix k :: string
    assume "k \<notin> {''magic'', ''last_boot_us'', ''fw_dirty'', ''first_boot'',
                        ''app_sha256'', ''app_hash''}"
    then have "k \<notin> set clear_flag_keys"
      unfolding clear_flag_keys_literal by simp
    then show "nvs_view (clear_flag s) k = nvs_view s k"
      by (simp add: cf erase_keys_other)
  qed
  show d: "nvs_durable (clear_flag s) = nvs_view (clear_flag s)" if "\<not> fault_at 6 (faults s)"
    using ec that by (simp add: cf durable_commit)
  show "\<forall>k\<in>{''magic'', ''last_boot_us'', ''fw_dirty'', ''first_boot'',
                       ''app_sha256'', ''app_hash''}.
                  nvs_view (clear_flag s) k = None \<and> nvs_durable (clear_flag s) k = None"
    if "faults s = []"
  proof -
    from that have nf: "\<not> fault_at i (faults s)" for i
      by simp
    show ?thesis
      using m0 [OF nf] m1 [OF nf] m2 [OF nf] m3 [OF nf] m4 [OF nf] m5 [OF nf] d [OF nf]
      by simp
  qed
qed

theorem clear_flag_erases_witness:
  "backend (ready_state armed_store []) = NVS \<and> nvs_ready (ready_state armed_store []) \<and>
   nvs_view (ready_state armed_store []) ''magic'' = Some (U32 kDrdMagic) \<and>
   nvs_view (ready_state armed_store []) ''fw_dirty'' = Some (U8 0) \<and>
   nvs_view (clear_flag (ready_state armed_store [])) ''magic'' = None \<and>
   nvs_view (clear_flag (ready_state armed_store [])) ''fw_dirty'' = None \<and>
   nvs_view (clear_flag (ready_state armed_store [])) ''first_boot'' = None \<and>
   nvs_view (clear_flag (ready_state armed_store [])) ''app_sha256'' = None \<and>
   nvs_durable (clear_flag (ready_state armed_store [])) ''magic'' = None \<and>
   nvs_durable (clear_flag (ready_state armed_store [])) ''fw_dirty'' = None \<and>
   nvs_durable (clear_flag (ready_state armed_store [])) ''first_boot'' = None \<and>
   nvs_durable (clear_flag (ready_state armed_store [])) ''app_sha256'' = None"
proof -
  have h: "backend (ready_state armed_store []) = NVS"
    by (simp add: ready_state_def boot_state_def)
  have r: "nvs_ready (ready_state armed_store [])"
    by (simp add: ready_state_def boot_state_def)
  have f: "faults (ready_state armed_store []) = []"
    by (simp add: ready_state_def boot_state_def)
  have m: "nvs_view (ready_state armed_store []) ''magic'' = Some (U32 kDrdMagic)"
    "nvs_view (ready_state armed_store []) ''fw_dirty'' = Some (U8 0)"
    by (simp_all add: ready_state_def concrete_defs)
  show ?thesis
    using clear_flag_erases [OF h] h r f m by simp
qed


text \<open>
  Before the namespace is open \<^verbatim>\<open>clear_flag\<close> returns at once on the NVS
  backend, and the stored keys stay.
\<close>

theorem clear_flag_before_configure:
  "backend (boot_state NVS 0 armed_store ESP_RST_POWERON (Some demo_sha) []) = NVS \<and>
   nvs_view (clear_flag (boot_state NVS 0 armed_store ESP_RST_POWERON (Some demo_sha) []))
     kKeyMagic = Some (U32 kDrdMagic) \<and>
   nvs_durable (clear_flag (boot_state NVS 0 armed_store ESP_RST_POWERON (Some demo_sha) []))
     kKeyMagic = Some (U32 kDrdMagic)"
  by (simp add: clear_flag_def boot_state_def armed_store_def)

end
